theory Spec2Isabelle
  imports Main "HOL-Library.Word" "HOL-Library.Sublist" "HOL-Library.Product_Lexorder"
begin

section \<open>The raw data file index (HDF5RawDataFile)\<close>

text \<open>
  A shallow embedding of \<^verbatim>\<open>HDF5RawDataFile\<close>, the index over a raw detector-data file.
  The member variables of the class are the fields of the record \<open>HDF5RawDataFile\<close>; a
  member function takes the object and returns its result together with the object as the
  call leaves it. A C++ exception is the left injection of the result: the object is
  returned with it, since what a member function wrote before it threw stays written.
\<close>

subsection \<open>Identifiers\<close>

text \<open>
  \<^verbatim>\<open>record_id_t\<close> is a pair of a record number (unsigned 64-bit) and a sequence number;
  a \<^verbatim>\<open>SourceID\<close> is a pair of a subsystem tag and an unsigned 32-bit id. Both are
  ordered lexicographically, as \<^verbatim>\<open>std::pair\<close> is. The enumerations (subsystem,
  fragment type, subdetector) are natural-number tags.
\<close>

type_synonym record_id_t = "64 word \<times> 32 word"
type_synonym Subsystem = nat
type_synonym FragmentType = nat
type_synonym Subdetector = nat
type_synonym SourceID = "Subsystem \<times> 32 word"

definition subsystem :: "SourceID \<Rightarrow> Subsystem" where
  "subsystem sid = fst sid"

text \<open>
  A \<^verbatim>\<open>std::set\<close> is a HOL set; where the code iterates over one, the model walks
  \<open>sorted_list_of_set\<close>. The caches keyed by record id and the maps that are only indexed
  are HOL maps. The two maps the code iterates over (source id to path, source id to
  geo ids) are association lists that hold the entries in the order the iteration
  yields them.
\<close>

type_synonym source_id_geo_id_map_t = "(SourceID \<times> 64 word list) list"
type_synonym source_id_path_map_t = "(SourceID \<times> string) list"
type_synonym subsystem_source_id_map_t = "Subsystem \<rightharpoonup> SourceID set"
type_synonym fragment_type_source_id_map_t = "FragmentType \<rightharpoonup> SourceID set"
type_synonym subdetector_source_id_map_t = "Subdetector \<rightharpoonup> SourceID set"

text \<open>
  \<^verbatim>\<open>m[k]\<close> on a \<^verbatim>\<open>std::map\<close>: the value stored under \<open>k\<close>; when there is none, a
  default value is stored under \<open>k\<close> first. Both the value and the map are returned.
\<close>

definition index_alist :: "('k::linorder \<times> 'v) list \<Rightarrow> 'k \<Rightarrow> 'v \<Rightarrow> 'v \<times> ('k \<times> 'v) list" where
  "index_alist m k dflt =
     (case map_of m k of
        Some v \<Rightarrow> (v, m)
      | None \<Rightarrow> (dflt, insort_key fst (k, dflt) m))"

definition index_map :: "('k \<rightharpoonup> 'v) \<Rightarrow> 'k \<Rightarrow> 'v \<Rightarrow> 'v \<times> ('k \<rightharpoonup> 'v)" where
  "index_map m k dflt =
     (case m k of
        Some v \<Rightarrow> (v, m)
      | None \<Rightarrow> (dflt, m(k \<mapsto> dflt)))"

subsection \<open>Errors\<close>

datatype error =
    InvalidHDF5Attribute string
  | JsonException
  | BadRecordType string string
  | WrongRecordTypeRequested string string
  | InvalidHDF5Group string
  | InvalidHDF5Dataset string
  | RecordIDNotFound "64 word" "32 word"
  | IncompatibleFileLayoutVersion "32 word" "32 word" "32 word"
  | StoiInvalidArgument
  | StoiOutOfRange

subsection \<open>The container and the collaborators\<close>

text \<open>
  What the container accessor shows of an opened file. An object in a group is a dataset
  with its bytes, a group with its named members, or something else.
\<close>

datatype h5obj =
    Dataset "8 word list"
  | Group "(string \<times> h5obj) list"
  | Other

type_synonym h5group = "(string \<times> h5obj) list"

definition listObjectNames :: "h5group \<Rightarrow> string list" where
  "listObjectNames g = map fst g"

text \<open>
  The four attributes the index reads are optional (\<open>None\<close>: \<^verbatim>\<open>hasAttribute\<close> is
  false). \<open>getGroup\<close> and \<open>getDataSet\<close> resolve a path; \<open>None\<close> stands for a path that
  does not resolve to a valid group or dataset.
\<close>

record hdf5_file =
  attr_recorded_size :: "64 word option"
  attr_filelayout_params :: "string option"
  attr_filelayout_version :: "32 word option"
  attr_record_type :: "string option"
  getGroup :: "string \<Rightarrow> h5group option"
  getDataSet :: "string \<Rightarrow> 8 word list option"

definition getPath :: "hdf5_file \<Rightarrow> string" where
  "getPath f = ''/''"

text \<open>
  Modelled from the spec: \<^verbatim>\<open>get_attribute<T>(name)\<close>, a template of the class header,
  as \<^verbatim>\<open>read_attribute<T>(handle, name) -> T | fails(AttributeError)\<close>; it fails when the
  file has no such attribute.
\<close>

definition get_attribute :: "'a option \<Rightarrow> string \<Rightarrow> error + 'a" where
  "get_attribute a name = (case a of None \<Rightarrow> Inl (InvalidHDF5Attribute name) | Some v \<Rightarrow> Inr v)"

text \<open>
  The layout descriptor holds the two arguments of its constructor. The parameter struct
  is generated code; of its content the model keeps the two names the spec lists.
\<close>

record FileLayoutParams =
  record_name_prefix :: string
  record_header_dataset_name :: string

record HDF5FileLayout =
  m_conf_params :: FileLayoutParams
  m_version :: "32 word"

text \<open>
  The collaborators whose code is outside this file: the default-constructed parameter
  struct, the JSON parser with the struct's \<^verbatim>\<open>from_json\<close> (\<open>None\<close>: it throws), the
  accessors of the layout descriptor, the source-id handler (constructed with the schema
  version; each fetch extends the map it is given) and the default-constructed source id.
\<close>

record collaborators =
  default_FileLayoutParams :: FileLayoutParams
  json_parse_from_json :: "string \<Rightarrow> FileLayoutParams option"
  get_record_name_prefix :: "HDF5FileLayout \<Rightarrow> string"
  get_record_header_dataset_name :: "HDF5FileLayout \<Rightarrow> string"
  get_record_number_string :: "HDF5FileLayout \<Rightarrow> 64 word \<Rightarrow> 32 word \<Rightarrow> string"
  get_record_header_path :: "HDF5FileLayout \<Rightarrow> 64 word \<Rightarrow> 32 word \<Rightarrow> string"
  get_fragment_type_path :: "HDF5FileLayout \<Rightarrow> 64 word \<Rightarrow> 32 word \<Rightarrow> Subsystem \<Rightarrow> string"
  fetch_file_level_geo_id_info ::
    "32 word \<Rightarrow> hdf5_file \<Rightarrow> source_id_geo_id_map_t \<Rightarrow> source_id_geo_id_map_t"
  fetch_record_level_geo_id_info ::
    "32 word \<Rightarrow> h5group \<Rightarrow> source_id_geo_id_map_t \<Rightarrow> source_id_geo_id_map_t"
  fetch_source_id_path_info ::
    "32 word \<Rightarrow> h5group \<Rightarrow> source_id_path_map_t \<Rightarrow> source_id_path_map_t"
  fetch_fragment_type_source_id_info ::
    "32 word \<Rightarrow> h5group \<Rightarrow> fragment_type_source_id_map_t \<Rightarrow> fragment_type_source_id_map_t"
  fetch_subdetector_source_id_info ::
    "32 word \<Rightarrow> h5group \<Rightarrow> subdetector_source_id_map_t \<Rightarrow> subdetector_source_id_map_t"
  fetch_record_header_source_id :: "32 word \<Rightarrow> h5group \<Rightarrow> SourceID"
  default_SourceID :: SourceID

text \<open>
  Modelled from the spec: \<^verbatim>\<open>HDF5SourceIDHandler::add_subsystem_source_id_to_map\<close>, a
  static helper of the handler; the subsystem map groups every entry of the path map by
  its subsystem tag.
\<close>

definition add_subsystem_source_id_to_map ::
    "subsystem_source_id_map_t \<Rightarrow> Subsystem \<Rightarrow> SourceID \<Rightarrow> subsystem_source_id_map_t" where
  "add_subsystem_source_id_to_map m ss sid =
     m(ss \<mapsto> insert sid (case m ss of None \<Rightarrow> {} | Some S \<Rightarrow> S))"

subsection \<open>The object\<close>

record HDF5RawDataFile =
  m_recorded_size :: "64 word"
  m_record_type :: string
  m_file_layout_ptr :: HDF5FileLayout
  m_file_level_source_id_geo_id_map :: source_id_geo_id_map_t
  m_all_record_ids_in_file :: "record_id_t set"
  m_source_id_cache :: "record_id_t \<rightharpoonup> SourceID set"
  m_record_header_source_id_cache :: "record_id_t \<rightharpoonup> SourceID"
  m_fragment_source_id_cache :: "record_id_t \<rightharpoonup> SourceID set"
  m_source_id_geo_id_cache :: "record_id_t \<rightharpoonup> source_id_geo_id_map_t"
  m_source_id_path_cache :: "record_id_t \<rightharpoonup> source_id_path_map_t"
  m_subsystem_source_id_cache :: "record_id_t \<rightharpoonup> subsystem_source_id_map_t"
  m_fragment_type_source_id_cache :: "record_id_t \<rightharpoonup> fragment_type_source_id_map_t"
  m_subdetector_source_id_cache :: "record_id_t \<rightharpoonup> subdetector_source_id_map_t"

definition get_version :: "HDF5RawDataFile \<Rightarrow> 32 word" where
  "get_version s = m_version (m_file_layout_ptr s)"

subsection \<open>Strings and \<^verbatim>\<open>std::stoi\<close>\<close>

text \<open>
  \<^verbatim>\<open>s.find(pat)\<close>: the position of the first occurrence of \<open>pat\<close> in \<open>s\<close>, \<open>None\<close> for
  \<^verbatim>\<open>npos\<close>.
\<close>

fun str_find :: "string \<Rightarrow> string \<Rightarrow> nat option" where
  "str_find [] pat = (if pat = [] then Some 0 else None)"
| "str_find (c # t) pat =
     (if prefix pat (c # t) then Some 0 else map_option Suc (str_find t pat))"

definition isspace :: "char \<Rightarrow> bool" where
  "isspace c = (of_char c \<in> {32::nat, 9, 10, 11, 12, 13})"

definition isdigit :: "char \<Rightarrow> bool" where
  "isdigit c = (48 \<le> (of_char c :: nat) \<and> (of_char c :: nat) \<le> 57)"

definition digit_value :: "char \<Rightarrow> int" where
  "digit_value c = int (of_char c) - 48"

definition decimal_value :: "string \<Rightarrow> int" where
  "decimal_value ds = foldl (\<lambda>a c. 10 * a + digit_value c) 0 ds"

text \<open>
  \<^verbatim>\<open>std::stoi(str)\<close> in base 10: leading white space is skipped, an optional sign is
  read, then the longest run of decimal digits; what follows is ignored. No digit:
  \<^verbatim>\<open>std::invalid_argument\<close>. A value outside the signed 32-bit range:
  \<^verbatim>\<open>std::out_of_range\<close>.
\<close>

definition stoi :: "string \<Rightarrow> error + int" where
  "stoi str =
     (let s1 = dropWhile isspace str;
          neg = (case s1 of [] \<Rightarrow> False | c # _ \<Rightarrow> c = CHR ''-'');
          s2 = (case s1 of [] \<Rightarrow> [] | c # r \<Rightarrow> if c = CHR ''-'' \<or> c = CHR ''+'' then r else s1);
          ds = takeWhile isdigit s2;
          v = (if neg then - decimal_value ds else decimal_value ds)
      in if ds = [] then Inl StoiInvalidArgument
         else if v < - (2 ^ 31) \<or> 2 ^ 31 - 1 < v then Inl StoiOutOfRange
         else Inr v)"

subsection \<open>Record enumeration\<close>

text \<open>
  The body of the loop of \<^verbatim>\<open>get_all_record_ids\<close> for one child name: \<open>None\<close> when the
  name is skipped, otherwise the pair that is inserted or the exception of \<^verbatim>\<open>std::stoi\<close>.
  The two \<^verbatim>\<open>int\<close> results are converted to the unsigned types of the pair. (The order in
  which C++ evaluates the two conversions of a name with a dot is unspecified; the model
  reads the record number first.)
\<close>

definition record_id_of_name :: "string \<Rightarrow> string \<Rightarrow> (error + record_id_t) option" where
  "record_id_of_name record_prefix name =
     (case str_find name record_prefix of
        None \<Rightarrow> None
      | Some loc \<Rightarrow>
          (let rec_num_string = drop (loc + length record_prefix) name in
           case str_find rec_num_string ''.'' of
             None \<Rightarrow>
               (case stoi rec_num_string of
                  Inl e \<Rightarrow> Some (Inl e)
                | Inr n \<Rightarrow> Some (Inr (word_of_int n, 0)))
           | Some loc' \<Rightarrow>
               (let seq_num_string = drop (loc' + 1) rec_num_string;
                    rec_num_string' = take loc' rec_num_string
                in case stoi rec_num_string' of
                     Inl e \<Rightarrow> Some (Inl e)
                   | Inr n \<Rightarrow>
                       (case stoi seq_num_string of
                          Inl e \<Rightarrow> Some (Inl e)
                        | Inr q \<Rightarrow> Some (Inr (word_of_int n, word_of_int q))))))"

fun record_ids_loop :: "string \<Rightarrow> string list \<Rightarrow> record_id_t set \<Rightarrow> (error + unit) \<times> record_id_t set" where
  "record_ids_loop record_prefix [] ids = (Inr (), ids)"
| "record_ids_loop record_prefix (name # names) ids =
     (case record_id_of_name record_prefix name of
        None \<Rightarrow> record_ids_loop record_prefix names ids
      | Some (Inl e) \<Rightarrow> (Inl e, ids)
      | Some (Inr rid) \<Rightarrow> record_ids_loop record_prefix names (insert rid ids))"

definition get_all_record_ids ::
    "collaborators \<Rightarrow> hdf5_file \<Rightarrow> HDF5RawDataFile \<Rightarrow> (error + record_id_t set) \<times> HDF5RawDataFile" where
  "get_all_record_ids X f s =
     (if m_all_record_ids_in_file s \<noteq> {} then (Inr (m_all_record_ids_in_file s), s)
      else
        case getGroup f (getPath f) of
          None \<Rightarrow> (Inl (InvalidHDF5Group (getPath f)), s)
        | Some parent_group \<Rightarrow>
            (let childNames = listObjectNames parent_group;
                 record_prefix = get_record_name_prefix X (m_file_layout_ptr s);
                 (r, ids) = record_ids_loop record_prefix childNames (m_all_record_ids_in_file s);
                 s' = s\<lparr>m_all_record_ids_in_file := ids\<rparr>
             in case r of
                  Inl e \<Rightarrow> (Inl e, s')
                | Inr _ \<Rightarrow> (Inr ids, s')))"

subsection \<open>Construction\<close>

text \<open>
  \<^verbatim>\<open>read_file_layout\<close>: the handler of the \<^verbatim>\<open>try\<close> block catches the exception of
  \<^verbatim>\<open>get_attribute\<close> only; an exception of the JSON parser is of another class and leaves
  the function. The result is the descriptor that \<^verbatim>\<open>m_file_layout_ptr\<close> is reset to.
\<close>

definition read_file_layout :: "collaborators \<Rightarrow> hdf5_file \<Rightarrow> error + HDF5FileLayout" where
  "read_file_layout X f =
     (case get_attribute (attr_filelayout_params f) ''filelayout_params'' of
        Inl _ \<Rightarrow> Inr \<lparr>m_conf_params = default_FileLayoutParams X, m_version = 0\<rparr>
      | Inr fl_str \<Rightarrow>
          (case json_parse_from_json X fl_str of
             None \<Rightarrow> Inl JsonException
           | Some fl_params \<Rightarrow>
               (case get_attribute (attr_filelayout_version f) ''filelayout_version'' of
                  Inl _ \<Rightarrow> Inr \<lparr>m_conf_params = fl_params, m_version = 0\<rparr>
                | Inr version \<Rightarrow> Inr \<lparr>m_conf_params = fl_params, m_version = version\<rparr>)))"

definition check_file_layout :: "collaborators \<Rightarrow> hdf5_file \<Rightarrow> HDF5FileLayout \<Rightarrow> error + unit" where
  "check_file_layout X f layout =
     (if m_version layout < 2 then Inr ()
      else
        case get_attribute (attr_record_type f) ''record_type'' of
          Inl e \<Rightarrow> Inl e
        | Inr record_type \<Rightarrow>
            if record_type \<noteq> get_record_name_prefix X layout
            then Inl (BadRecordType record_type (get_record_name_prefix X layout))
            else Inr ())"

text \<open>The constructor, for a file that opened. Every cache starts empty.\<close>

definition HDF5RawDataFile_ctor :: "collaborators \<Rightarrow> hdf5_file \<Rightarrow> error + HDF5RawDataFile" where
  "HDF5RawDataFile_ctor X f =
     (let recorded_size = (case attr_recorded_size f of Some n \<Rightarrow> n | None \<Rightarrow> 0) in
      case read_file_layout X f of
        Inl e \<Rightarrow> Inl e
      | Inr layout \<Rightarrow>
          (let record_type =
                 (case attr_record_type f of
                    Some rt \<Rightarrow> rt
                  | None \<Rightarrow> get_record_name_prefix X layout)
           in case check_file_layout X f layout of
                Inl e \<Rightarrow> Inl e
              | Inr _ \<Rightarrow>
                  Inr \<lparr>m_recorded_size = recorded_size,
                       m_record_type = record_type,
                       m_file_layout_ptr = layout,
                       m_file_level_source_id_geo_id_map =
                         fetch_file_level_geo_id_info X (m_version layout) f [],
                       m_all_record_ids_in_file = {},
                       m_source_id_cache = Map.empty,
                       m_record_header_source_id_cache = Map.empty,
                       m_fragment_source_id_cache = Map.empty,
                       m_source_id_geo_id_cache = Map.empty,
                       m_source_id_path_cache = Map.empty,
                       m_subsystem_source_id_cache = Map.empty,
                       m_fragment_type_source_id_cache = Map.empty,
                       m_subdetector_source_id_cache = Map.empty\<rparr>))"

definition check_record_type :: "collaborators \<Rightarrow> HDF5RawDataFile \<Rightarrow> string \<Rightarrow> error + unit" where
  "check_record_type X s rt_name =
     (if get_version s < 2 then Inr ()
      else if get_record_name_prefix X (m_file_layout_ptr s) \<noteq> rt_name
      then Inl (WrongRecordTypeRequested rt_name (get_record_name_prefix X (m_file_layout_ptr s)))
      else Inr ())"

text \<open>The enumerations that first check the record type of the file.\<close>

definition get_all_trigger_record_ids ::
    "collaborators \<Rightarrow> hdf5_file \<Rightarrow> HDF5RawDataFile \<Rightarrow> (error + record_id_t set) \<times> HDF5RawDataFile" where
  "get_all_trigger_record_ids X f s =
     (case check_record_type X s ''TriggerRecord'' of
        Inl e \<Rightarrow> (Inl e, s)
      | Inr _ \<Rightarrow> get_all_record_ids X f s)"

definition get_all_timeslice_ids ::
    "collaborators \<Rightarrow> hdf5_file \<Rightarrow> HDF5RawDataFile \<Rightarrow> (error + record_id_t set) \<times> HDF5RawDataFile" where
  "get_all_timeslice_ids X f s =
     (case check_record_type X s ''TimeSlice'' of
        Inl e \<Rightarrow> (Inl e, s)
      | Inr _ \<Rightarrow> get_all_record_ids X f s)"

subsection \<open>Sequencing\<close>

text \<open>
  A call that threw ends the caller with the same exception and the object as the call
  left it; otherwise the caller goes on with the result.
\<close>

definition and_then ::
    "('e + 'a) \<times> 's \<Rightarrow> ('a \<Rightarrow> 's \<Rightarrow> ('e + 'b) \<times> 's) \<Rightarrow> ('e + 'b) \<times> 's" where
  "and_then r k = (case r of (Inl e, s) \<Rightarrow> (Inl e, s) | (Inr a, s) \<Rightarrow> k a s)"

subsection \<open>Traversal of a group\<close>

definition strip_slash :: "string \<Rightarrow> string" where
  "strip_slash relative_path =
     (if relative_path \<noteq> [] \<and> last relative_path = CHR ''/'' then butlast relative_path
      else relative_path)"

text \<open>
  \<^verbatim>\<open>explore_subgroup\<close> first drops one trailing slash of the path, then walks the
  children: a dataset's path is appended to the list, a group is explored in turn.
\<close>

fun explore_children :: "h5group \<Rightarrow> string \<Rightarrow> string list \<Rightarrow> string list" where
  "explore_children [] relative_path path_list = path_list"
| "explore_children ((child_name, child) # rest) relative_path path_list =
     explore_children rest relative_path
       (case child of
          Dataset _ \<Rightarrow> path_list @ [relative_path @ ''/'' @ child_name]
        | Group child_group \<Rightarrow>
            explore_children child_group (strip_slash (relative_path @ ''/'' @ child_name)) path_list
        | Other \<Rightarrow> path_list)"

definition explore_subgroup :: "h5group \<Rightarrow> string \<Rightarrow> string list \<Rightarrow> string list" where
  "explore_subgroup parent_group relative_path path_list =
     explore_children parent_group (strip_slash relative_path) path_list"

definition get_dataset_paths :: "hdf5_file \<Rightarrow> string \<Rightarrow> error + string list" where
  "get_dataset_paths f top_level_group_name =
     (let name = (if top_level_group_name = [] then getPath f else top_level_group_name) in
      case getGroup f name of
        None \<Rightarrow> Inl (InvalidHDF5Group name)
      | Some parent_group \<Rightarrow> Inr (explore_subgroup parent_group name []))"

subsection \<open>Population of the per-record caches\<close>

text \<open>
  The loop over the source-id-to-path map: it builds the full set of source ids, the set
  without the record header's source id, and the subsystem map.
\<close>

fun source_id_loop ::
    "SourceID \<Rightarrow> source_id_path_map_t \<Rightarrow>
     SourceID set \<times> SourceID set \<times> subsystem_source_id_map_t \<Rightarrow>
     SourceID set \<times> SourceID set \<times> subsystem_source_id_map_t" where
  "source_id_loop rh_sid [] acc = acc"
| "source_id_loop rh_sid ((sid, path) # rest) (full_source_id_set, fragment_source_id_set, subsystem_source_id_map) =
     source_id_loop rh_sid rest
       (insert sid full_source_id_set,
        (if sid \<noteq> rh_sid then insert sid fragment_source_id_set else fragment_source_id_set),
        add_subsystem_source_id_to_map subsystem_source_id_map (subsystem sid) sid)"

definition add_record_level_info_to_caches_if_needed ::
    "collaborators \<Rightarrow> hdf5_file \<Rightarrow> record_id_t \<Rightarrow> HDF5RawDataFile \<Rightarrow> (error + unit) \<times> HDF5RawDataFile" where
  "add_record_level_info_to_caches_if_needed X f rid s =
     (if m_source_id_path_cache s rid \<noteq> None then (Inr (), s)
      else
        let record_level_group_name =
              get_record_number_string X (m_file_layout_ptr s) (fst rid) (snd rid)
        in case getGroup f record_level_group_name of
             None \<Rightarrow> (Inl (InvalidHDF5Group record_level_group_name), s)
           | Some record_group \<Rightarrow>
               (let local_source_id_geo_id_map =
                      fetch_record_level_geo_id_info X (get_version s) record_group
                        (m_file_level_source_id_geo_id_map s);
                    source_id_path_map = fetch_source_id_path_info X (get_version s) record_group [];
                    fragment_type_source_id_map =
                      fetch_fragment_type_source_id_info X (get_version s) record_group Map.empty;
                    subdetector_source_id_map =
                      fetch_subdetector_source_id_info X (get_version s) record_group Map.empty;
                    rh_sid = fetch_record_header_source_id X (get_version s) record_group;
                    (full_source_id_set, fragment_source_id_set, subsystem_source_id_map) =
                      source_id_loop rh_sid source_id_path_map ({}, {}, Map.empty)
                in (Inr (),
                    s\<lparr>m_source_id_cache := (m_source_id_cache s)(rid \<mapsto> full_source_id_set),
                      m_record_header_source_id_cache :=
                        (m_record_header_source_id_cache s)(rid \<mapsto> rh_sid),
                      m_fragment_source_id_cache :=
                        (m_fragment_source_id_cache s)(rid \<mapsto> fragment_source_id_set),
                      m_source_id_geo_id_cache :=
                        (m_source_id_geo_id_cache s)(rid \<mapsto> local_source_id_geo_id_map),
                      m_source_id_path_cache :=
                        (m_source_id_path_cache s)(rid \<mapsto> source_id_path_map),
                      m_subsystem_source_id_cache :=
                        (m_subsystem_source_id_cache s)(rid \<mapsto> subsystem_source_id_map),
                      m_fragment_type_source_id_cache :=
                        (m_fragment_type_source_id_cache s)(rid \<mapsto> fragment_type_source_id_map),
                      m_subdetector_source_id_cache :=
                        (m_subdetector_source_id_cache s)(rid \<mapsto> subdetector_source_id_map)\<rparr>)))"

subsection \<open>The record check\<close>

text \<open>
  Every per-record query starts with

  \<^verbatim>\<open>auto rec_id = get_all_record_ids().find(rid);\<close>
  \<^verbatim>\<open>if (rec_id == get_all_record_ids().end()) throw ...\<close>

  \<^verbatim>\<open>get_all_record_ids\<close> returns the set by value, so each of the two calls yields a set
  object of its own. An iterator of a \<^verbatim>\<open>std::set\<close> is the address of a node: of the node
  that holds the element, or, for \<^verbatim>\<open>end()\<close> and for a failed \<^verbatim>\<open>find\<close>, of the header node,
  which lies inside the set object. A node is named here by the set object it belongs to
  (the first or the second copy) and, for an element node, by the element; nodes of
  different objects are different nodes.
\<close>

datatype 'a set_iterator = Element_node nat 'a | Header_node nat

definition set_find :: "nat \<Rightarrow> 'a set \<Rightarrow> 'a \<Rightarrow> 'a set_iterator" where
  "set_find obj S x = (if x \<in> S then Element_node obj x else Header_node obj)"

definition set_end :: "nat \<Rightarrow> 'a set \<Rightarrow> 'a set_iterator" where
  "set_end obj S = Header_node obj"

definition find_record_id ::
    "collaborators \<Rightarrow> hdf5_file \<Rightarrow> record_id_t \<Rightarrow> HDF5RawDataFile \<Rightarrow> (error + unit) \<times> HDF5RawDataFile" where
  "find_record_id X f rid s =
     and_then (get_all_record_ids X f s) (\<lambda>first_copy s1.
       let rec_id = set_find 1 first_copy rid in
       and_then (get_all_record_ids X f s1) (\<lambda>second_copy s2.
         if rec_id = set_end 2 second_copy
         then (Inl (RecordIDNotFound (fst rid) (snd rid)), s2)
         else (Inr (), s2)))"

subsection \<open>Reading the caches\<close>

text \<open>
  The reads \<^verbatim>\<open>m_..._cache[rid]\<close> and \<^verbatim>\<open>m_..._cache[rid][key]\<close> of the queries: the value
  read, and the object with whatever default entries the subscripts stored.
\<close>

definition source_id_cache_index :: "record_id_t \<Rightarrow> HDF5RawDataFile \<Rightarrow> SourceID set \<times> HDF5RawDataFile" where
  "source_id_cache_index rid s =
     (let (v, cache) = index_map (m_source_id_cache s) rid {}
      in (v, s\<lparr>m_source_id_cache := cache\<rparr>))"

definition record_header_source_id_cache_index ::
    "collaborators \<Rightarrow> record_id_t \<Rightarrow> HDF5RawDataFile \<Rightarrow> SourceID \<times> HDF5RawDataFile" where
  "record_header_source_id_cache_index X rid s =
     (let (v, cache) = index_map (m_record_header_source_id_cache s) rid (default_SourceID X)
      in (v, s\<lparr>m_record_header_source_id_cache := cache\<rparr>))"

definition fragment_source_id_cache_index ::
    "record_id_t \<Rightarrow> HDF5RawDataFile \<Rightarrow> SourceID set \<times> HDF5RawDataFile" where
  "fragment_source_id_cache_index rid s =
     (let (v, cache) = index_map (m_fragment_source_id_cache s) rid {}
      in (v, s\<lparr>m_fragment_source_id_cache := cache\<rparr>))"

definition subsystem_source_id_cache_index ::
    "record_id_t \<Rightarrow> Subsystem \<Rightarrow> HDF5RawDataFile \<Rightarrow> SourceID set \<times> HDF5RawDataFile" where
  "subsystem_source_id_cache_index rid ss s =
     (let (m, cache) = index_map (m_subsystem_source_id_cache s) rid Map.empty;
          (v, m') = index_map m ss {}
      in (v, s\<lparr>m_subsystem_source_id_cache := cache(rid \<mapsto> m')\<rparr>))"

definition fragment_type_source_id_cache_index ::
    "record_id_t \<Rightarrow> FragmentType \<Rightarrow> HDF5RawDataFile \<Rightarrow> SourceID set \<times> HDF5RawDataFile" where
  "fragment_type_source_id_cache_index rid frag_type s =
     (let (m, cache) = index_map (m_fragment_type_source_id_cache s) rid Map.empty;
          (v, m') = index_map m frag_type {}
      in (v, s\<lparr>m_fragment_type_source_id_cache := cache(rid \<mapsto> m')\<rparr>))"

definition subdetector_source_id_cache_index ::
    "record_id_t \<Rightarrow> Subdetector \<Rightarrow> HDF5RawDataFile \<Rightarrow> SourceID set \<times> HDF5RawDataFile" where
  "subdetector_source_id_cache_index rid subdet s =
     (let (m, cache) = index_map (m_subdetector_source_id_cache s) rid Map.empty;
          (v, m') = index_map m subdet {}
      in (v, s\<lparr>m_subdetector_source_id_cache := cache(rid \<mapsto> m')\<rparr>))"

definition geo_id_cache_index ::
    "record_id_t \<Rightarrow> HDF5RawDataFile \<Rightarrow> source_id_geo_id_map_t \<times> HDF5RawDataFile" where
  "geo_id_cache_index rid s =
     (let (m, cache) = index_map (m_source_id_geo_id_cache s) rid []
      in (m, s\<lparr>m_source_id_geo_id_cache := cache\<rparr>))"

definition geo_id_cache_index_source_id ::
    "record_id_t \<Rightarrow> SourceID \<Rightarrow> HDF5RawDataFile \<Rightarrow> 64 word list \<times> HDF5RawDataFile" where
  "geo_id_cache_index_source_id rid source_id s =
     (let (m, cache) = index_map (m_source_id_geo_id_cache s) rid [];
          (v, m') = index_alist m source_id []
      in (v, s\<lparr>m_source_id_geo_id_cache := cache(rid \<mapsto> m')\<rparr>))"

definition path_cache_index :: "record_id_t \<Rightarrow> SourceID \<Rightarrow> HDF5RawDataFile \<Rightarrow> string \<times> HDF5RawDataFile" where
  "path_cache_index rid source_id s =
     (let (m, cache) = index_map (m_source_id_path_cache s) rid [];
          (v, m') = index_alist m source_id []
      in (v, s\<lparr>m_source_id_path_cache := cache(rid \<mapsto> m')\<rparr>))"

subsection \<open>Queries on the source ids of a record\<close>

definition get_source_ids ::
    "collaborators \<Rightarrow> hdf5_file \<Rightarrow> record_id_t \<Rightarrow> HDF5RawDataFile \<Rightarrow> (error + SourceID set) \<times> HDF5RawDataFile" where
  "get_source_ids X f rid s =
     and_then (find_record_id X f rid s) (\<lambda>_ s1.
     and_then (add_record_level_info_to_caches_if_needed X f rid s1) (\<lambda>_ s2.
       let (v, s3) = source_id_cache_index rid s2 in (Inr v, s3)))"

definition get_record_header_source_id ::
    "collaborators \<Rightarrow> hdf5_file \<Rightarrow> record_id_t \<Rightarrow> HDF5RawDataFile \<Rightarrow> (error + SourceID) \<times> HDF5RawDataFile" where
  "get_record_header_source_id X f rid s =
     and_then (find_record_id X f rid s) (\<lambda>_ s1.
     and_then (add_record_level_info_to_caches_if_needed X f rid s1) (\<lambda>_ s2.
       let (v, s3) = record_header_source_id_cache_index X rid s2 in (Inr v, s3)))"

definition get_fragment_source_ids ::
    "collaborators \<Rightarrow> hdf5_file \<Rightarrow> record_id_t \<Rightarrow> HDF5RawDataFile \<Rightarrow> (error + SourceID set) \<times> HDF5RawDataFile" where
  "get_fragment_source_ids X f rid s =
     and_then (find_record_id X f rid s) (\<lambda>_ s1.
     and_then (add_record_level_info_to_caches_if_needed X f rid s1) (\<lambda>_ s2.
       let (v, s3) = fragment_source_id_cache_index rid s2 in (Inr v, s3)))"

definition get_source_ids_for_subsystem ::
    "collaborators \<Rightarrow> hdf5_file \<Rightarrow> record_id_t \<Rightarrow> Subsystem \<Rightarrow> HDF5RawDataFile \<Rightarrow>
     (error + SourceID set) \<times> HDF5RawDataFile" where
  "get_source_ids_for_subsystem X f rid ss s =
     and_then (find_record_id X f rid s) (\<lambda>_ s1.
     and_then (add_record_level_info_to_caches_if_needed X f rid s1) (\<lambda>_ s2.
       let (v, s3) = subsystem_source_id_cache_index rid ss s2 in (Inr v, s3)))"

definition get_source_ids_for_fragment_type ::
    "collaborators \<Rightarrow> hdf5_file \<Rightarrow> record_id_t \<Rightarrow> FragmentType \<Rightarrow> HDF5RawDataFile \<Rightarrow>
     (error + SourceID set) \<times> HDF5RawDataFile" where
  "get_source_ids_for_fragment_type X f rid frag_type s =
     and_then (find_record_id X f rid s) (\<lambda>_ s1.
     and_then (add_record_level_info_to_caches_if_needed X f rid s1) (\<lambda>_ s2.
       let (v, s3) = fragment_type_source_id_cache_index rid frag_type s2 in (Inr v, s3)))"

definition get_source_ids_for_subdetector ::
    "collaborators \<Rightarrow> hdf5_file \<Rightarrow> record_id_t \<Rightarrow> Subdetector \<Rightarrow> HDF5RawDataFile \<Rightarrow>
     (error + SourceID set) \<times> HDF5RawDataFile" where
  "get_source_ids_for_subdetector X f rid subdet s =
     and_then (find_record_id X f rid s) (\<lambda>_ s1.
     and_then (add_record_level_info_to_caches_if_needed X f rid s1) (\<lambda>_ s2.
       let (v, s3) = subdetector_source_id_cache_index rid subdet s2 in (Inr v, s3)))"

subsection \<open>Queries on the geo ids of a record\<close>

definition get_all_geo_ids :: "HDF5RawDataFile \<Rightarrow> 64 word set" where
  "get_all_geo_ids s =
     fold (\<lambda>map_entry set_of_geo_ids. fold insert (snd map_entry) set_of_geo_ids)
       (m_file_level_source_id_geo_id_map s) {}"

definition get_geo_ids ::
    "collaborators \<Rightarrow> hdf5_file \<Rightarrow> record_id_t \<Rightarrow> HDF5RawDataFile \<Rightarrow> (error + 64 word set) \<times> HDF5RawDataFile" where
  "get_geo_ids X f rid s =
     and_then (find_record_id X f rid s) (\<lambda>_ s1.
     and_then (add_record_level_info_to_caches_if_needed X f rid s1) (\<lambda>_ s2.
       let (m, s3) = geo_id_cache_index rid s2
       in (Inr (fold (\<lambda>map_entry set_of_geo_ids. fold insert (snd map_entry) set_of_geo_ids) m {}),
           s3)))"

definition get_geo_ids_for_subdetector ::
    "collaborators \<Rightarrow> hdf5_file \<Rightarrow> record_id_t \<Rightarrow> Subdetector \<Rightarrow> HDF5RawDataFile \<Rightarrow>
     (error + 64 word set) \<times> HDF5RawDataFile" where
  "get_geo_ids_for_subdetector X f rid subdet s =
     and_then (find_record_id X f rid s) (\<lambda>_ s1.
     and_then (add_record_level_info_to_caches_if_needed X f rid s1) (\<lambda>_ s2.
       let (m, s3) = geo_id_cache_index rid s2
       in (Inr (fold (\<lambda>map_entry set_of_geo_ids.
                   fold (\<lambda>geo_id acc.
                          if (ucast (and 0xffff geo_id) :: 16 word) = of_nat subdet
                          then insert geo_id acc else acc)
                     (snd map_entry) set_of_geo_ids) m {}),
           s3)))"

definition get_geo_ids_for_source_id ::
    "collaborators \<Rightarrow> hdf5_file \<Rightarrow> record_id_t \<Rightarrow> SourceID \<Rightarrow> HDF5RawDataFile \<Rightarrow>
     (error + 64 word list) \<times> HDF5RawDataFile" where
  "get_geo_ids_for_source_id X f rid source_id s =
     and_then (find_record_id X f rid s) (\<lambda>_ s1.
     and_then (add_record_level_info_to_caches_if_needed X f rid s1) (\<lambda>_ s2.
       let (v, s3) = geo_id_cache_index_source_id rid source_id s2 in (Inr v, s3)))"

definition get_source_id_for_geo_id ::
    "collaborators \<Rightarrow> hdf5_file \<Rightarrow> record_id_t \<Rightarrow> 64 word \<Rightarrow> HDF5RawDataFile \<Rightarrow>
     (error + SourceID) \<times> HDF5RawDataFile" where
  "get_source_id_for_geo_id X f rid requested_geo_id s =
     and_then (find_record_id X f rid s) (\<lambda>_ s1.
     and_then (add_record_level_info_to_caches_if_needed X f rid s1) (\<lambda>_ s2.
       let (m, s3) = geo_id_cache_index rid s2
       in (case find (\<lambda>map_entry. requested_geo_id \<in> set (snd map_entry)) m of
             Some map_entry \<Rightarrow> (Inr (fst map_entry), s3)
           | None \<Rightarrow> (Inr (default_SourceID X), s3))))"

subsection \<open>Dataset paths\<close>

fun frag_paths_loop ::
    "record_id_t \<Rightarrow> SourceID list \<Rightarrow> string list \<Rightarrow> HDF5RawDataFile \<Rightarrow> string list \<times> HDF5RawDataFile" where
  "frag_paths_loop rid [] frag_paths s = (frag_paths, s)"
| "frag_paths_loop rid (source_id # rest) frag_paths s =
     (let (p, s') = path_cache_index rid source_id s
      in frag_paths_loop rid rest (frag_paths @ [p]) s')"

definition get_record_header_dataset_path ::
    "collaborators \<Rightarrow> hdf5_file \<Rightarrow> record_id_t \<Rightarrow> HDF5RawDataFile \<Rightarrow> (error + string) \<times> HDF5RawDataFile" where
  "get_record_header_dataset_path X f rid s =
     and_then (find_record_id X f rid s) (\<lambda>_ s1.
       if get_version s1 \<le> 2
       then (Inr (getPath f @ get_record_header_path X (m_file_layout_ptr s1) (fst rid) (snd rid)), s1)
       else
         and_then (get_record_header_source_id X f rid s1) (\<lambda>source_id s2.
           let (p, s3) = path_cache_index rid source_id s2 in (Inr p, s3)))"

definition get_fragment_dataset_paths ::
    "collaborators \<Rightarrow> hdf5_file \<Rightarrow> record_id_t \<Rightarrow> HDF5RawDataFile \<Rightarrow> (error + string list) \<times> HDF5RawDataFile" where
  "get_fragment_dataset_paths X f rid s =
     and_then (find_record_id X f rid s) (\<lambda>_ s1.
       if get_version s1 \<le> 2
       then
         (case get_dataset_paths f
                 (getPath f @ get_record_number_string X (m_file_layout_ptr s1) (fst rid) (snd rid)) of
            Inl e \<Rightarrow> (Inl e, s1)
          | Inr paths \<Rightarrow>
              (Inr (filter (\<lambda>path.
                       str_find path (get_record_header_dataset_name X (m_file_layout_ptr s1)) = None)
                     paths),
               s1))
       else
         and_then (get_fragment_source_ids X f rid s1) (\<lambda>source_id_list s2.
           let (frag_paths, s3) = frag_paths_loop rid (sorted_list_of_set source_id_list) [] s2
           in (Inr frag_paths, s3)))"

subsection \<open>Typed retrieval\<close>

text \<open>
  The deserialisers adopt the buffer read from the dataset; the model returns the bytes.
\<close>

definition MAX_FILELAYOUT_VERSION :: "32 word" where
  "MAX_FILELAYOUT_VERSION = 4294967295"

definition get_dataset_raw_data :: "hdf5_file \<Rightarrow> string \<Rightarrow> error + 8 word list" where
  "get_dataset_raw_data f dataset_path =
     (case getGroup f ''/'' of
        None \<Rightarrow> Inl (InvalidHDF5Group ''/'')
      | Some parent_group \<Rightarrow>
          (case getDataSet f dataset_path of
             None \<Rightarrow> Inl (InvalidHDF5Dataset dataset_path)
           | Some membuffer \<Rightarrow> Inr membuffer))"

definition get_frag_ptr ::
    "collaborators \<Rightarrow> hdf5_file \<Rightarrow> record_id_t \<Rightarrow> SourceID \<Rightarrow> HDF5RawDataFile \<Rightarrow>
     (error + 8 word list) \<times> HDF5RawDataFile" where
  "get_frag_ptr X f rid source_id s =
     (if get_version s < 2
      then (Inl (IncompatibleFileLayoutVersion (get_version s) 2 MAX_FILELAYOUT_VERSION), s)
      else
        and_then (find_record_id X f rid s) (\<lambda>_ s1.
        and_then (add_record_level_info_to_caches_if_needed X f rid s1) (\<lambda>_ s2.
          let (p, s3) = path_cache_index rid source_id s2
          in (get_dataset_raw_data f p, s3))))"

text \<open>
  \<^verbatim>\<open>get_trh_ptr\<close> and \<^verbatim>\<open>get_tsh_ptr\<close> read the dataset of the record header; they differ
  in the deserialiser that receives the bytes.
\<close>

definition get_trh_ptr ::
    "collaborators \<Rightarrow> hdf5_file \<Rightarrow> record_id_t \<Rightarrow> HDF5RawDataFile \<Rightarrow>
     (error + 8 word list) \<times> HDF5RawDataFile" where
  "get_trh_ptr X f rid s =
     (if get_version s < 2
      then (Inl (IncompatibleFileLayoutVersion (get_version s) 2 MAX_FILELAYOUT_VERSION), s)
      else
        and_then (find_record_id X f rid s) (\<lambda>_ s1.
        and_then (add_record_level_info_to_caches_if_needed X f rid s1) (\<lambda>_ s2.
          let (rh_source_id, s3) = record_header_source_id_cache_index X rid s2;
              (p, s4) = path_cache_index rid rh_source_id s3
          in (get_dataset_raw_data f p, s4))))"

definition get_tsh_ptr ::
    "collaborators \<Rightarrow> hdf5_file \<Rightarrow> record_id_t \<Rightarrow> HDF5RawDataFile \<Rightarrow>
     (error + 8 word list) \<times> HDF5RawDataFile" where
  "get_tsh_ptr X f rid s =
     (if get_version s < 2
      then (Inl (IncompatibleFileLayoutVersion (get_version s) 2 MAX_FILELAYOUT_VERSION), s)
      else
        and_then (find_record_id X f rid s) (\<lambda>_ s1.
        and_then (add_record_level_info_to_caches_if_needed X f rid s1) (\<lambda>_ s2.
          let (rh_source_id, s3) = record_header_source_id_cache_index X rid s2;
              (p, s4) = path_cache_index rid rh_source_id s3
          in (get_dataset_raw_data f p, s4))))"

subsection \<open>Sequences of queries\<close>

datatype query =
    Get_all_record_ids
  | Get_all_trigger_record_ids
  | Get_all_timeslice_ids
  | Add_record_level_info record_id_t
  | Get_source_ids record_id_t
  | Get_record_header_source_id record_id_t
  | Get_fragment_source_ids record_id_t
  | Get_source_ids_for_subsystem record_id_t Subsystem
  | Get_source_ids_for_fragment_type record_id_t FragmentType
  | Get_source_ids_for_subdetector record_id_t Subdetector
  | Get_geo_ids record_id_t
  | Get_geo_ids_for_subdetector record_id_t Subdetector
  | Get_geo_ids_for_source_id record_id_t SourceID
  | Get_source_id_for_geo_id record_id_t "64 word"
  | Get_record_header_dataset_path record_id_t
  | Get_fragment_dataset_paths record_id_t
  | Get_frag_ptr record_id_t SourceID
  | Get_trh_ptr record_id_t
  | Get_tsh_ptr record_id_t

text \<open>
  A query run for its effect: the exception, if it threw, and the object it leaves
  behind; the value it returned is dropped.
\<close>

definition discard :: "('e + 'a) \<times> 's \<Rightarrow> ('e + unit) \<times> 's" where
  "discard r = (case fst r of Inl e \<Rightarrow> Inl e | Inr _ \<Rightarrow> Inr (), snd r)"

fun run_query ::
    "collaborators \<Rightarrow> hdf5_file \<Rightarrow> query \<Rightarrow> HDF5RawDataFile \<Rightarrow> (error + unit) \<times> HDF5RawDataFile" where
  "run_query X f Get_all_record_ids s = discard (get_all_record_ids X f s)"
| "run_query X f Get_all_trigger_record_ids s = discard (get_all_trigger_record_ids X f s)"
| "run_query X f Get_all_timeslice_ids s = discard (get_all_timeslice_ids X f s)"
| "run_query X f (Add_record_level_info rid) s = add_record_level_info_to_caches_if_needed X f rid s"
| "run_query X f (Get_source_ids rid) s = discard (get_source_ids X f rid s)"
| "run_query X f (Get_record_header_source_id rid) s = discard (get_record_header_source_id X f rid s)"
| "run_query X f (Get_fragment_source_ids rid) s = discard (get_fragment_source_ids X f rid s)"
| "run_query X f (Get_source_ids_for_subsystem rid ss) s = discard (get_source_ids_for_subsystem X f rid ss s)"
| "run_query X f (Get_source_ids_for_fragment_type rid ft) s = discard (get_source_ids_for_fragment_type X f rid ft s)"
| "run_query X f (Get_source_ids_for_subdetector rid sd) s = discard (get_source_ids_for_subdetector X f rid sd s)"
| "run_query X f (Get_geo_ids rid) s = discard (get_geo_ids X f rid s)"
| "run_query X f (Get_geo_ids_for_subdetector rid sd) s = discard (get_geo_ids_for_subdetector X f rid sd s)"
| "run_query X f (Get_geo_ids_for_source_id rid sid) s = discard (get_geo_ids_for_source_id X f rid sid s)"
| "run_query X f (Get_source_id_for_geo_id rid g) s = discard (get_source_id_for_geo_id X f rid g s)"
| "run_query X f (Get_record_header_dataset_path rid) s = discard (get_record_header_dataset_path X f rid s)"
| "run_query X f (Get_fragment_dataset_paths rid) s = discard (get_fragment_dataset_paths X f rid s)"
| "run_query X f (Get_frag_ptr rid sid) s = discard (get_frag_ptr X f rid sid s)"
| "run_query X f (Get_trh_ptr rid) s = discard (get_trh_ptr X f rid s)"
| "run_query X f (Get_tsh_ptr rid) s = discard (get_tsh_ptr X f rid s)"

definition after_query :: "collaborators \<Rightarrow> hdf5_file \<Rightarrow> query \<Rightarrow> HDF5RawDataFile \<Rightarrow> HDF5RawDataFile" where
  "after_query X f q s = snd (run_query X f q s)"

definition after_queries :: "collaborators \<Rightarrow> hdf5_file \<Rightarrow> query list \<Rightarrow> HDF5RawDataFile \<Rightarrow> HDF5RawDataFile" where
  "after_queries X f qs s = fold (after_query X f) qs s"

text \<open>
  The objects a program can hold: the one the constructor returned, and every object a
  query leaves behind.
\<close>

inductive reachable :: "collaborators \<Rightarrow> hdf5_file \<Rightarrow> HDF5RawDataFile \<Rightarrow> bool" for X f where
  constructed: "HDF5RawDataFile_ctor X f = Inr s \<Longrightarrow> reachable X f s"
| queried: "reachable X f s \<Longrightarrow> reachable X f (after_query X f q s)"

text \<open>
  The queries keyed by a record id that start with the record check, with their other
  arguments.
\<close>

definition per_record_queries ::
    "record_id_t \<Rightarrow> Subsystem \<Rightarrow> FragmentType \<Rightarrow> Subdetector \<Rightarrow> SourceID \<Rightarrow> 64 word \<Rightarrow> query list" where
  "per_record_queries rid ss ft sd sid g =
     [Get_source_ids rid, Get_fragment_source_ids rid, Get_record_header_source_id rid,
      Get_source_ids_for_subsystem rid ss, Get_source_ids_for_fragment_type rid ft,
      Get_source_ids_for_subdetector rid sd, Get_geo_ids rid, Get_geo_ids_for_subdetector rid sd,
      Get_geo_ids_for_source_id rid sid, Get_source_id_for_geo_id rid g,
      Get_record_header_dataset_path rid, Get_fragment_dataset_paths rid]"

subsection \<open>Invariants of the caches\<close>

text \<open>
  The eight per-record caches hold the same record ids: a record id is a key of the
  source-id-to-path cache, which the population routine tests, exactly when it is a key
  of each of the others.
\<close>

definition caches_populated_together :: "HDF5RawDataFile \<Rightarrow> bool" where
  "caches_populated_together s =
     (\<forall>rid.
        (m_source_id_cache s rid = None) = (m_source_id_path_cache s rid = None) \<and>
        (m_record_header_source_id_cache s rid = None) = (m_source_id_path_cache s rid = None) \<and>
        (m_fragment_source_id_cache s rid = None) = (m_source_id_path_cache s rid = None) \<and>
        (m_source_id_geo_id_cache s rid = None) = (m_source_id_path_cache s rid = None) \<and>
        (m_subsystem_source_id_cache s rid = None) = (m_source_id_path_cache s rid = None) \<and>
        (m_fragment_type_source_id_cache s rid = None) = (m_source_id_path_cache s rid = None) \<and>
        (m_subdetector_source_id_cache s rid = None) = (m_source_id_path_cache s rid = None))"

text \<open>
  Where the three source-id caches hold a record id, the fragment set is the full set
  without the record header's source id.
\<close>

definition fragment_sets_derived :: "HDF5RawDataFile \<Rightarrow> bool" where
  "fragment_sets_derived s =
     (\<forall>rid full rh frag.
        m_source_id_cache s rid = Some full \<longrightarrow>
        m_record_header_source_id_cache s rid = Some rh \<longrightarrow>
        m_fragment_source_id_cache s rid = Some frag \<longrightarrow>
        frag = full - {rh})"

definition cache_inv :: "HDF5RawDataFile \<Rightarrow> bool" where
  "cache_inv s = (caches_populated_together s \<and> fragment_sets_derived s)"

text \<open>
  The members that are set by the constructor only, and the invariant of an object
  whose immutable members are \<open>c\<close>.
\<close>

definition immutable_part ::
    "HDF5RawDataFile \<Rightarrow> 64 word \<times> string \<times> HDF5FileLayout \<times> source_id_geo_id_map_t" where
  "immutable_part s =
     (m_recorded_size s, m_record_type s, m_file_layout_ptr s, m_file_level_source_id_geo_id_map s)"

definition object_inv ::
    "64 word \<times> string \<times> HDF5FileLayout \<times> source_id_geo_id_map_t \<Rightarrow> HDF5RawDataFile \<Rightarrow> bool" where
  "object_inv c s = (cache_inv s \<and> immutable_part s = c)"

subsection \<open>Example files\<close>

text \<open>
  Collaborators for the examples. The parser accepts a text that starts with a brace;
  the layout names the records \<open>(1, 0)\<close> and \<open>(99, 0)\<close> \<^verbatim>\<open>TriggerRecord00001\<close> and
  \<^verbatim>\<open>TriggerRecord00099\<close>; the handler finds no
  geo ids, and source ids only from schema version 3 on, as the path map of a record
  with one fragment and its header.
\<close>

definition example_params :: FileLayoutParams where
  "example_params =
     \<lparr>record_name_prefix = ''TriggerRecord'', record_header_dataset_name = ''TriggerRecordHeader''\<rparr>"

definition example_record_number_string :: "HDF5FileLayout \<Rightarrow> 64 word \<Rightarrow> 32 word \<Rightarrow> string" where
  "example_record_number_string l rn sn =
     record_name_prefix (m_conf_params l) @
       (if rn = 1 \<and> sn = 0 then ''00001'' else if rn = 99 \<and> sn = 0 then ''00099'' else ''?'')"

definition example_path_map :: source_id_path_map_t where
  "example_path_map =
     [((1, 7), ''/TriggerRecord00001/RawData/Detector_Readout_0x00000007''),
      ((4, 0), ''/TriggerRecord00001/RawData/TR_Builder_0x00000000_TriggerRecordHeader'')]"

definition example_collaborators :: collaborators where
  "example_collaborators =
     \<lparr>default_FileLayoutParams = example_params,
      json_parse_from_json =
        (\<lambda>str. case str of [] \<Rightarrow> None
                | c # _ \<Rightarrow> if c = CHR ''{'' then Some example_params else None),
      get_record_name_prefix = (\<lambda>l. record_name_prefix (m_conf_params l)),
      get_record_header_dataset_name = (\<lambda>l. record_header_dataset_name (m_conf_params l)),
      get_record_number_string = example_record_number_string,
      get_record_header_path =
        (\<lambda>l rn sn. example_record_number_string l rn sn @ ''/'' @
                     record_header_dataset_name (m_conf_params l)),
      get_fragment_type_path = (\<lambda>l rn sn ss. example_record_number_string l rn sn @ ''/RawData''),
      fetch_file_level_geo_id_info = (\<lambda>v f m. m),
      fetch_record_level_geo_id_info = (\<lambda>v g m. m),
      fetch_source_id_path_info = (\<lambda>v g m. if v < 3 then m else example_path_map),
      fetch_fragment_type_source_id_info = (\<lambda>v g m. m),
      fetch_subdetector_source_id_info = (\<lambda>v g m. m),
      fetch_record_header_source_id = (\<lambda>v g. if v < 3 then (0, 0xFFFFFFFF) else (4, 0)),
      default_SourceID = (0, 0xFFFFFFFF)\<rparr>"

text \<open>A file of schema version \<open>v\<close> with the one record \<open>(1, 0)\<close>.\<close>

definition example_record_group :: h5group where
  "example_record_group =
     [(''RawData'',
       Group [(''Detector_Readout_0x00000007'', Dataset [1, 2, 3]),
              (''TR_Builder_0x00000000_TriggerRecordHeader'', Dataset [4, 5])])]"

definition example_file :: "32 word \<Rightarrow> hdf5_file" where
  "example_file v =
     \<lparr>attr_recorded_size = Some 5,
      attr_filelayout_params = Some ''{}'',
      attr_filelayout_version = Some v,
      attr_record_type = Some ''TriggerRecord'',
      getGroup =
        (\<lambda>p. if p = ''/'' then Some [(''TriggerRecord00001'', Group example_record_group)]
             else if p = ''TriggerRecord00001'' \<or> p = ''/TriggerRecord00001''
             then Some example_record_group else None),
      getDataSet =
        (\<lambda>p. if p = ''/TriggerRecord00001/RawData/Detector_Readout_0x00000007''
             then Some [1, 2, 3]
             else if p = ''/TriggerRecord00001/RawData/TR_Builder_0x00000000_TriggerRecordHeader''
             then Some [4, 5] else None)\<rparr>"

text \<open>The object the constructor builds from a file whose layout is \<open>example_params\<close>.\<close>

definition example_object :: "32 word \<Rightarrow> HDF5RawDataFile" where
  "example_object v =
     \<lparr>m_recorded_size = 5,
      m_record_type = ''TriggerRecord'',
      m_file_layout_ptr = \<lparr>m_conf_params = example_params, m_version = v\<rparr>,
      m_file_level_source_id_geo_id_map = [],
      m_all_record_ids_in_file = {},
      m_source_id_cache = Map.empty,
      m_record_header_source_id_cache = Map.empty,
      m_fragment_source_id_cache = Map.empty,
      m_source_id_geo_id_cache = Map.empty,
      m_source_id_path_cache = Map.empty,
      m_subsystem_source_id_cache = Map.empty,
      m_fragment_type_source_id_cache = Map.empty,
      m_subdetector_source_id_cache = Map.empty\<rparr>"

text \<open>The file of the enumeration scenario: three record groups and an unrelated group.\<close>

definition scenario_file :: hdf5_file where
  "scenario_file =
     (example_file 3)\<lparr>getGroup :=
       (\<lambda>p. if p = ''/''
            then Some [(''TriggerRecord00001'', Group []), (''TriggerRecord00002.0'', Group []),
                       (''TriggerRecord00002.1'', Group []), (''Metadata'', Group [])]
            else None)\<rparr>"

text \<open>The example object after the enumeration and the population of the record \<open>(1, 0)\<close>.\<close>

definition example_populated :: "32 word \<Rightarrow> HDF5RawDataFile" where
  "example_populated v =
     snd (add_record_level_info_to_caches_if_needed example_collaborators (example_file v) (1, 0)
            ((example_object v)\<lparr>m_all_record_ids_in_file := {(1, 0)}\<rparr>))"

text \<open>
  Files whose root lists one child: a record number beyond the range of \<^verbatim>\<open>int\<close>, a name
  with no number, and a name that contains the record prefix after other characters.
\<close>

definition one_child_file :: "string \<Rightarrow> hdf5_file" where
  "one_child_file name =
     (example_file 3)\<lparr>getGroup := (\<lambda>p. if p = ''/'' then Some [(name, Group [])] else None)\<rparr>"

section \<open>Verification\<close>

subsection \<open>Sequencing and the enumeration\<close>

lemma str_find_prefix: "prefix pat s \<Longrightarrow> str_find s pat = Some 0"
  by (cases s) auto

lemma and_then_Inl [simp]: "and_then (Inl e, s) k = (Inl e, s)"
  by (simp add: and_then_def)

lemma and_then_Inr [simp]: "and_then (Inr a, s) k = k a s"
  by (simp add: and_then_def)

lemma record_ids_loop_all_parse:
  "\<forall>n \<in> set names. \<forall>e. record_id_of_name pfx n \<noteq> Some (Inl e) \<Longrightarrow>
   record_ids_loop pfx names ids =
     (Inr (), ids \<union> {rid. \<exists>n \<in> set names. record_id_of_name pfx n = Some (Inr rid)})"
proof (induction names arbitrary: ids)
  case Nil
  then show ?case by simp
next
  case (Cons n names)
  show ?case
  proof (cases "record_id_of_name pfx n")
    case None
    with Cons show ?thesis by auto
  next
    case (Some r)
    with Cons.prems obtain rid where r: "r = Inr rid" by (cases r) auto
    with Some Cons show ?thesis by auto
  qed
qed

lemma record_ids_loop_throws:
  "\<exists>n \<in> set names. \<exists>e. record_id_of_name pfx n = Some (Inl e) \<Longrightarrow>
   \<exists>e ids'. record_ids_loop pfx names ids = (Inl e, ids')"
proof (induction names arbitrary: ids)
  case Nil
  then show ?case by simp
next
  case (Cons n names)
  show ?case
  proof (cases "record_id_of_name pfx n")
    case None
    with Cons show ?thesis by auto
  next
    case (Some r)
    show ?thesis
    proof (cases r)
      case (Inl e)
      with Some show ?thesis by simp
    next
      case (Inr rid)
      with Some Cons.prems have "\<exists>n \<in> set names. \<exists>e. record_id_of_name pfx n = Some (Inl e)" by auto
      from Cons.IH[OF this] Some Inr show ?thesis by simp
    qed
  qed
qed

lemma get_all_record_ids_frame:
  "snd (get_all_record_ids X f s) =
     s\<lparr>m_all_record_ids_in_file := m_all_record_ids_in_file (snd (get_all_record_ids X f s))\<rparr>"
  by (auto simp: get_all_record_ids_def Let_def split: option.splits prod.splits sum.splits)

lemma get_all_record_ids_result:
  "get_all_record_ids X f s = (Inr ids, s1) \<Longrightarrow> s1 = s\<lparr>m_all_record_ids_in_file := ids\<rparr>"
  by (auto simp: get_all_record_ids_def Let_def split: if_splits option.splits prod.splits sum.splits)

lemma get_all_record_ids_again:
  assumes "get_all_record_ids X f s = (Inr ids, s1)"
  shows "get_all_record_ids X f s1 = (Inr ids, s1)"
proof (cases "m_all_record_ids_in_file s \<noteq> {}")
  case True
  with assms show ?thesis by (auto simp: get_all_record_ids_def)
next
  case False
  note s1 = get_all_record_ids_result[OF assms]
  show ?thesis
  proof (cases "ids = {}")
    case True
    with False s1 have "s1 = s" by simp
    with assms show ?thesis by simp
  next
    case False
    with s1 show ?thesis by (simp add: get_all_record_ids_def)
  qed
qed

subsection \<open>The invariant of the caches\<close>

lemma and_then_inv:
  assumes "I (snd r)" and "\<And>a s. r = (Inr a, s) \<Longrightarrow> I (snd (k a s))"
  shows "I (snd (and_then r k))"
proof (cases r)
  case (Pair x s)
  then show ?thesis using assms by (cases x) auto
qed

lemma cache_inv_all_record_ids [simp]:
  "cache_inv (s\<lparr>m_all_record_ids_in_file := ids\<rparr>) = cache_inv s"
  by (simp add: cache_inv_def caches_populated_together_def fragment_sets_derived_def)

lemma cache_inv_ctor: "HDF5RawDataFile_ctor X f = Inr s \<Longrightarrow> cache_inv s"
  by (auto simp: HDF5RawDataFile_ctor_def Let_def cache_inv_def caches_populated_together_def
        fragment_sets_derived_def split: sum.splits)

lemma cache_inv_get_all_record_ids:
  "cache_inv s \<Longrightarrow> cache_inv (snd (get_all_record_ids X f s))"
  by (subst get_all_record_ids_frame) simp

lemma find_record_id_found:
  "get_all_record_ids X f s = (Inr ids, s1) \<Longrightarrow> find_record_id X f rid s = (Inr (), s1)"
  by (simp add: find_record_id_def get_all_record_ids_again set_find_def set_end_def)

lemma find_record_id_throws:
  "get_all_record_ids X f s = (Inl e, s1) \<Longrightarrow> find_record_id X f rid s = (Inl e, s1)"
  by (simp add: find_record_id_def)

lemma find_record_id_frame:
  "snd (find_record_id X f rid s) =
     s\<lparr>m_all_record_ids_in_file := m_all_record_ids_in_file (snd (find_record_id X f rid s))\<rparr>"
proof (cases "get_all_record_ids X f s")
  case (Pair r s1)
  note f1 = get_all_record_ids_frame[of X f s]
  show ?thesis
  proof (cases r)
    case (Inl e)
    with Pair f1 show ?thesis by (simp add: find_record_id_throws)
  next
    case (Inr ids)
    with Pair f1 show ?thesis by (simp add: find_record_id_found)
  qed
qed

lemma cache_inv_find_record_id:
  "cache_inv s \<Longrightarrow> cache_inv (snd (find_record_id X f rid s))"
  by (subst find_record_id_frame) simp

lemma source_id_loop_full:
  "fst (source_id_loop rh_sid pm acc) = fst acc \<union> fst ` set pm"
  by (induction rh_sid pm acc rule: source_id_loop.induct) auto

lemma source_id_loop_fragment:
  "fst (snd (source_id_loop rh_sid pm acc)) = fst (snd acc) \<union> (fst ` set pm - {rh_sid})"
  by (induction rh_sid pm acc rule: source_id_loop.induct) auto

lemma add_record_level_info_populated:
  "m_source_id_path_cache s rid \<noteq> None \<Longrightarrow>
   add_record_level_info_to_caches_if_needed X f rid s = (Inr (), s)"
  by (simp add: add_record_level_info_to_caches_if_needed_def)

lemma add_record_level_info_no_group:
  "m_source_id_path_cache s rid = None \<Longrightarrow>
   getGroup f (get_record_number_string X (m_file_layout_ptr s) (fst rid) (snd rid)) = None \<Longrightarrow>
   add_record_level_info_to_caches_if_needed X f rid s =
     (Inl (InvalidHDF5Group (get_record_number_string X (m_file_layout_ptr s) (fst rid) (snd rid))), s)"
  by (simp add: add_record_level_info_to_caches_if_needed_def)

lemma add_record_level_info_sentinel:
  "add_record_level_info_to_caches_if_needed X f rid s = (Inr u, s') \<Longrightarrow>
   m_source_id_path_cache s' rid \<noteq> None"
  by (auto simp: add_record_level_info_to_caches_if_needed_def Let_def case_prod_beta
        split: if_splits option.splits)

lemma add_record_level_info_errors:
  "add_record_level_info_to_caches_if_needed X f rid s = (Inl e, s') \<Longrightarrow>
   s' = s \<and> (\<exists>name. e = InvalidHDF5Group name)"
  by (auto simp: add_record_level_info_to_caches_if_needed_def Let_def case_prod_beta
        split: if_splits option.splits)

lemma add_record_level_info_twice:
  "add_record_level_info_to_caches_if_needed X f rid
     (snd (add_record_level_info_to_caches_if_needed X f rid s)) =
   add_record_level_info_to_caches_if_needed X f rid s"
  by (auto simp: add_record_level_info_to_caches_if_needed_def Let_def case_prod_beta
        split: if_splits option.splits)

lemma cache_inv_add_record_level_info:
  assumes "cache_inv s"
  shows "cache_inv (snd (add_record_level_info_to_caches_if_needed X f rid s))"
proof (cases "m_source_id_path_cache s rid")
  case (Some pm)
  with assms show ?thesis by (simp add: add_record_level_info_populated)
next
  case None
  show ?thesis
  proof (cases "getGroup f (get_record_number_string X (m_file_layout_ptr s) (fst rid) (snd rid))")
    case N: None
    with None assms show ?thesis by (simp add: add_record_level_info_no_group)
  next
    case (Some g)
    from assms have tog: "caches_populated_together s" and der: "fragment_sets_derived s"
      by (simp_all add: cache_inv_def)
    have "caches_populated_together (snd (add_record_level_info_to_caches_if_needed X f rid s))"
      using None Some tog
      by (simp add: add_record_level_info_to_caches_if_needed_def Let_def case_prod_beta
            caches_populated_together_def)
    moreover have "fragment_sets_derived (snd (add_record_level_info_to_caches_if_needed X f rid s))"
      using None Some der
      by (auto simp: add_record_level_info_to_caches_if_needed_def Let_def case_prod_beta
            fragment_sets_derived_def source_id_loop_full source_id_loop_fragment)
    ultimately show ?thesis by (simp add: cache_inv_def)
  qed
qed

lemma and_then_cases:
  assumes "and_then r k = (x, s')"
  obtains (throws) e where "r = (Inl e, s')" "x = Inl e"
        | (returns) a s1 where "r = (Inr a, s1)" "k a s1 = (x, s')"
proof (cases r)
  case (Pair y s1)
  show ?thesis
  proof (cases y)
    case (Inl e)
    with Pair assms throws show ?thesis by simp
  next
    case (Inr a)
    with Pair assms returns show ?thesis by simp
  qed
qed

lemma prelude_cases:
  assumes "and_then (find_record_id X f rid s) (\<lambda>_ s1.
           and_then (add_record_level_info_to_caches_if_needed X f rid s1) (\<lambda>_. k)) = (x, s')"
  obtains (find_throws) e where "find_record_id X f rid s = (Inl e, s')" "x = Inl e"
        | (add_throws) e where "find_record_id X f rid s = (Inr (), s')"
            "add_record_level_info_to_caches_if_needed X f rid s' = (Inl e, s')" "x = Inl e"
        | (tail) s1 s2 where "find_record_id X f rid s = (Inr (), s1)"
            "add_record_level_info_to_caches_if_needed X f rid s1 = (Inr (), s2)"
            "k s2 = (x, s')"
  using assms
proof (cases rule: and_then_cases)
  case (throws e)
  then show ?thesis by (rule find_throws)
next
  case (returns a s1)
  from returns(2) show ?thesis
  proof (cases rule: and_then_cases)
    case (throws e)
    from add_record_level_info_errors[OF throws(1)] have "s' = s1" by simp
    with throws returns(1) show ?thesis by (auto intro: add_throws)
  next
    case r2: (returns b s2)
    with returns(1) show ?thesis by (auto intro: tail)
  qed
qed

lemma prelude_preserves:
  assumes "I s"
    and "\<And>s ids. I s \<Longrightarrow> I (s\<lparr>m_all_record_ids_in_file := ids\<rparr>)"
    and "\<And>s. I s \<Longrightarrow> I (snd (add_record_level_info_to_caches_if_needed X f rid s))"
    and "\<And>s2. I s2 \<Longrightarrow> m_source_id_path_cache s2 rid \<noteq> None \<Longrightarrow> I (snd (k s2))"
  shows "I (snd (and_then (find_record_id X f rid s) (\<lambda>_ s1.
           and_then (add_record_level_info_to_caches_if_needed X f rid s1) (\<lambda>_. k))))"
proof -
  obtain x s' where eq: "and_then (find_record_id X f rid s) (\<lambda>_ s1.
           and_then (add_record_level_info_to_caches_if_needed X f rid s1) (\<lambda>_. k)) = (x, s')"
    by (cases "and_then (find_record_id X f rid s) (\<lambda>_ s1.
           and_then (add_record_level_info_to_caches_if_needed X f rid s1) (\<lambda>_. k))") auto
  have found: "I (snd (find_record_id X f rid s))"
    by (subst find_record_id_frame) (rule assms(2)[OF assms(1)])
  from eq have "I s'"
  proof (cases rule: prelude_cases)
    case (find_throws e)
    with found show ?thesis by simp
  next
    case (add_throws e)
    with found show ?thesis by simp
  next
    case (tail s1 s2)
    with found have "I s1" by simp
    from assms(3)[OF this, of ] tail(2) have "I s2" by simp
    moreover from tail(2) have "m_source_id_path_cache s2 rid \<noteq> None"
      by (rule add_record_level_info_sentinel)
    ultimately have "I (snd (k s2))" by (rule assms(4))
    with tail(3) show ?thesis by simp
  qed
  with eq show ?thesis by simp
qed

lemma populated_everywhere:
  assumes "caches_populated_together s" and "m_source_id_path_cache s rid \<noteq> None"
  shows "m_source_id_cache s rid \<noteq> None"
    and "m_record_header_source_id_cache s rid \<noteq> None"
    and "m_fragment_source_id_cache s rid \<noteq> None"
    and "m_source_id_geo_id_cache s rid \<noteq> None"
    and "m_subsystem_source_id_cache s rid \<noteq> None"
    and "m_fragment_type_source_id_cache s rid \<noteq> None"
    and "m_subdetector_source_id_cache s rid \<noteq> None"
  using assms(2) assms(1)[unfolded caches_populated_together_def, rule_format, of rid]
  by simp_all

lemma cache_inv_populated:
  assumes "cache_inv s" and "m_source_id_path_cache s rid \<noteq> None"
  shows "m_source_id_cache s rid \<noteq> None"
    and "m_record_header_source_id_cache s rid \<noteq> None"
    and "m_fragment_source_id_cache s rid \<noteq> None"
    and "m_source_id_geo_id_cache s rid \<noteq> None"
    and "m_subsystem_source_id_cache s rid \<noteq> None"
    and "m_fragment_type_source_id_cache s rid \<noteq> None"
    and "m_subdetector_source_id_cache s rid \<noteq> None"
  using populated_everywhere[of s rid] assms by (simp_all add: cache_inv_def)

lemma cache_inv_inner_update:
  assumes "cache_inv s" and "m_source_id_path_cache s rid \<noteq> None"
  shows "cache_inv (s\<lparr>m_source_id_path_cache := (m_source_id_path_cache s)(rid \<mapsto> pm)\<rparr>)"
    and "cache_inv (s\<lparr>m_source_id_geo_id_cache := (m_source_id_geo_id_cache s)(rid \<mapsto> gm)\<rparr>)"
    and "cache_inv (s\<lparr>m_subsystem_source_id_cache := (m_subsystem_source_id_cache s)(rid \<mapsto> sm)\<rparr>)"
    and "cache_inv (s\<lparr>m_fragment_type_source_id_cache := (m_fragment_type_source_id_cache s)(rid \<mapsto> fm)\<rparr>)"
    and "cache_inv (s\<lparr>m_subdetector_source_id_cache := (m_subdetector_source_id_cache s)(rid \<mapsto> dm)\<rparr>)"
  using assms
  by (auto simp: cache_inv_def caches_populated_together_def fragment_sets_derived_def)

text \<open>Once a record is populated, a read of an outer cache changes nothing.\<close>

lemma source_id_cache_index_populated:
  assumes "cache_inv s" and "m_source_id_path_cache s rid \<noteq> None"
  shows "source_id_cache_index rid s = (the (m_source_id_cache s rid), s)"
  using cache_inv_populated(1)[OF assms]
  by (auto simp: source_id_cache_index_def index_map_def)

lemma record_header_source_id_cache_index_populated:
  assumes "cache_inv s" and "m_source_id_path_cache s rid \<noteq> None"
  shows "record_header_source_id_cache_index X rid s = (the (m_record_header_source_id_cache s rid), s)"
  using cache_inv_populated(2)[OF assms]
  by (auto simp: record_header_source_id_cache_index_def index_map_def)

lemma fragment_source_id_cache_index_populated:
  assumes "cache_inv s" and "m_source_id_path_cache s rid \<noteq> None"
  shows "fragment_source_id_cache_index rid s = (the (m_fragment_source_id_cache s rid), s)"
  using cache_inv_populated(3)[OF assms]
  by (auto simp: fragment_source_id_cache_index_def index_map_def)

lemma geo_id_cache_index_populated:
  assumes "cache_inv s" and "m_source_id_path_cache s rid \<noteq> None"
  shows "geo_id_cache_index rid s = (the (m_source_id_geo_id_cache s rid), s)"
  using cache_inv_populated(4)[OF assms]
  by (auto simp: geo_id_cache_index_def index_map_def)

text \<open>A read with two subscripts rewrites the record's entry of one cache.\<close>

lemma subsystem_source_id_cache_index_populated:
  assumes "cache_inv s" and "m_source_id_path_cache s rid \<noteq> None"
  shows "\<exists>m'. snd (subsystem_source_id_cache_index rid ss s) =
           s\<lparr>m_subsystem_source_id_cache := (m_subsystem_source_id_cache s)(rid \<mapsto> m')\<rparr>"
  using cache_inv_populated(5)[OF assms]
  by (auto simp: subsystem_source_id_cache_index_def index_map_def case_prod_beta)

lemma fragment_type_source_id_cache_index_populated:
  assumes "cache_inv s" and "m_source_id_path_cache s rid \<noteq> None"
  shows "\<exists>m'. snd (fragment_type_source_id_cache_index rid ft s) =
           s\<lparr>m_fragment_type_source_id_cache := (m_fragment_type_source_id_cache s)(rid \<mapsto> m')\<rparr>"
  using cache_inv_populated(6)[OF assms]
  by (auto simp: fragment_type_source_id_cache_index_def index_map_def case_prod_beta)

lemma subdetector_source_id_cache_index_populated:
  assumes "cache_inv s" and "m_source_id_path_cache s rid \<noteq> None"
  shows "\<exists>m'. snd (subdetector_source_id_cache_index rid sd s) =
           s\<lparr>m_subdetector_source_id_cache := (m_subdetector_source_id_cache s)(rid \<mapsto> m')\<rparr>"
  using cache_inv_populated(7)[OF assms]
  by (auto simp: subdetector_source_id_cache_index_def index_map_def case_prod_beta)

lemma geo_id_cache_index_source_id_populated:
  assumes "cache_inv s" and "m_source_id_path_cache s rid \<noteq> None"
  shows "\<exists>m'. snd (geo_id_cache_index_source_id rid sid s) =
           s\<lparr>m_source_id_geo_id_cache := (m_source_id_geo_id_cache s)(rid \<mapsto> m')\<rparr>"
  using cache_inv_populated(4)[OF assms]
  by (auto simp: geo_id_cache_index_source_id_def index_map_def case_prod_beta)

lemma path_cache_index_populated:
  assumes "m_source_id_path_cache s rid = Some pm"
  shows "path_cache_index rid sid s =
           (fst (index_alist pm sid []),
            s\<lparr>m_source_id_path_cache := (m_source_id_path_cache s)(rid \<mapsto> snd (index_alist pm sid []))\<rparr>)"
  using assms by (simp add: path_cache_index_def index_map_def case_prod_beta)

subsection \<open>The invariant of the object\<close>

lemma object_inv_all_record_ids [simp]:
  "object_inv c (s\<lparr>m_all_record_ids_in_file := ids\<rparr>) = object_inv c s"
  by (simp add: object_inv_def immutable_part_def)

lemma immutable_part_add_record_level_info:
  "immutable_part (snd (add_record_level_info_to_caches_if_needed X f rid s)) = immutable_part s"
  by (auto simp: immutable_part_def add_record_level_info_to_caches_if_needed_def Let_def
        case_prod_beta split: if_splits option.splits)

lemma object_inv_add_record_level_info:
  "object_inv c s \<Longrightarrow> object_inv c (snd (add_record_level_info_to_caches_if_needed X f rid s))"
  by (simp add: object_inv_def cache_inv_add_record_level_info
        immutable_part_add_record_level_info)

lemma object_inv_find_record_id:
  "object_inv c s \<Longrightarrow> object_inv c (snd (find_record_id X f rid s))"
  by (subst find_record_id_frame) simp

lemma object_inv_get_all_record_ids:
  "object_inv c s \<Longrightarrow> object_inv c (snd (get_all_record_ids X f s))"
  by (subst get_all_record_ids_frame) simp

lemma object_inv_inner_update:
  assumes "object_inv c s" and "m_source_id_path_cache s rid \<noteq> None"
  shows "object_inv c (s\<lparr>m_source_id_path_cache := (m_source_id_path_cache s)(rid \<mapsto> pm)\<rparr>)"
    and "object_inv c (s\<lparr>m_source_id_geo_id_cache := (m_source_id_geo_id_cache s)(rid \<mapsto> gm)\<rparr>)"
    and "object_inv c (s\<lparr>m_subsystem_source_id_cache := (m_subsystem_source_id_cache s)(rid \<mapsto> sm)\<rparr>)"
    and "object_inv c (s\<lparr>m_fragment_type_source_id_cache := (m_fragment_type_source_id_cache s)(rid \<mapsto> fm)\<rparr>)"
    and "object_inv c (s\<lparr>m_subdetector_source_id_cache := (m_subdetector_source_id_cache s)(rid \<mapsto> dm)\<rparr>)"
  using assms cache_inv_inner_update[of s rid]
  by (simp_all add: object_inv_def immutable_part_def)

lemma object_inv_subsystem_index:
  assumes "object_inv c s" and "m_source_id_path_cache s rid \<noteq> None"
  shows "object_inv c (snd (subsystem_source_id_cache_index rid ss s))"
proof -
  from assms have "cache_inv s" by (simp add: object_inv_def)
  from subsystem_source_id_cache_index_populated[OF this assms(2), of ss]
  show ?thesis using object_inv_inner_update(3)[OF assms] by auto
qed

lemma object_inv_fragment_type_index:
  assumes "object_inv c s" and "m_source_id_path_cache s rid \<noteq> None"
  shows "object_inv c (snd (fragment_type_source_id_cache_index rid ft s))"
proof -
  from assms have "cache_inv s" by (simp add: object_inv_def)
  from fragment_type_source_id_cache_index_populated[OF this assms(2), of ft]
  show ?thesis using object_inv_inner_update(4)[OF assms] by auto
qed

lemma object_inv_subdetector_index:
  assumes "object_inv c s" and "m_source_id_path_cache s rid \<noteq> None"
  shows "object_inv c (snd (subdetector_source_id_cache_index rid sd s))"
proof -
  from assms have "cache_inv s" by (simp add: object_inv_def)
  from subdetector_source_id_cache_index_populated[OF this assms(2), of sd]
  show ?thesis using object_inv_inner_update(5)[OF assms] by auto
qed

lemma object_inv_geo_id_index_source_id:
  assumes "object_inv c s" and "m_source_id_path_cache s rid \<noteq> None"
  shows "object_inv c (snd (geo_id_cache_index_source_id rid sid s))"
proof -
  from assms have "cache_inv s" by (simp add: object_inv_def)
  from geo_id_cache_index_source_id_populated[OF this assms(2), of sid]
  show ?thesis using object_inv_inner_update(2)[OF assms] by auto
qed

lemma object_inv_path_cache_index:
  assumes "object_inv c s" and "m_source_id_path_cache s rid \<noteq> None"
  shows "object_inv c (snd (path_cache_index rid sid s))"
    and "m_source_id_path_cache (snd (path_cache_index rid sid s)) rid \<noteq> None"
proof -
  from assms(2) obtain pm where pm: "m_source_id_path_cache s rid = Some pm" by auto
  show "object_inv c (snd (path_cache_index rid sid s))"
    using object_inv_inner_update(1)[OF assms] by (simp add: path_cache_index_populated[OF pm])
  show "m_source_id_path_cache (snd (path_cache_index rid sid s)) rid \<noteq> None"
    by (simp add: path_cache_index_populated[OF pm])
qed

lemma object_inv_frag_paths_loop:
  "object_inv c s \<Longrightarrow> m_source_id_path_cache s rid \<noteq> None \<Longrightarrow>
   object_inv c (snd (frag_paths_loop rid sids frag_paths s))"
proof (induction sids arbitrary: frag_paths s)
  case Nil
  then show ?case by simp
next
  case (Cons sid sids)
  from object_inv_path_cache_index[OF Cons.prems, of sid] Cons.IH show ?case
    by (simp add: case_prod_beta)
qed

lemma object_inv_cache_inv: "object_inv c s \<Longrightarrow> cache_inv s"
  by (simp add: object_inv_def)

lemma object_inv_prelude:
  assumes "object_inv c s"
    and "\<And>s2. object_inv c s2 \<Longrightarrow> m_source_id_path_cache s2 rid \<noteq> None \<Longrightarrow>
           object_inv c (snd (k s2))"
  shows "object_inv c (snd (and_then (find_record_id X f rid s) (\<lambda>_ s1.
           and_then (add_record_level_info_to_caches_if_needed X f rid s1) (\<lambda>_. k))))"
  by (rule prelude_preserves[where I = "object_inv c"])
     (simp_all add: assms object_inv_add_record_level_info)

lemma object_inv_get_source_ids:
  "object_inv c s \<Longrightarrow> object_inv c (snd (get_source_ids X f rid s))"
  unfolding get_source_ids_def
  by (rule object_inv_prelude)
     (simp_all add: case_prod_beta source_id_cache_index_populated object_inv_cache_inv)

lemma object_inv_get_record_header_source_id:
  "object_inv c s \<Longrightarrow> object_inv c (snd (get_record_header_source_id X f rid s))"
  unfolding get_record_header_source_id_def
  by (rule object_inv_prelude)
     (simp_all add: case_prod_beta record_header_source_id_cache_index_populated object_inv_cache_inv)

lemma object_inv_get_fragment_source_ids:
  "object_inv c s \<Longrightarrow> object_inv c (snd (get_fragment_source_ids X f rid s))"
  unfolding get_fragment_source_ids_def
  by (rule object_inv_prelude)
     (simp_all add: case_prod_beta fragment_source_id_cache_index_populated object_inv_cache_inv)

lemma object_inv_get_source_ids_for_subsystem:
  "object_inv c s \<Longrightarrow> object_inv c (snd (get_source_ids_for_subsystem X f rid ss s))"
  unfolding get_source_ids_for_subsystem_def
  by (rule object_inv_prelude) (simp_all add: case_prod_beta object_inv_subsystem_index)

lemma object_inv_get_source_ids_for_fragment_type:
  "object_inv c s \<Longrightarrow> object_inv c (snd (get_source_ids_for_fragment_type X f rid ft s))"
  unfolding get_source_ids_for_fragment_type_def
  by (rule object_inv_prelude) (simp_all add: case_prod_beta object_inv_fragment_type_index)

lemma object_inv_get_source_ids_for_subdetector:
  "object_inv c s \<Longrightarrow> object_inv c (snd (get_source_ids_for_subdetector X f rid sd s))"
  unfolding get_source_ids_for_subdetector_def
  by (rule object_inv_prelude) (simp_all add: case_prod_beta object_inv_subdetector_index)

lemma object_inv_get_geo_ids:
  "object_inv c s \<Longrightarrow> object_inv c (snd (get_geo_ids X f rid s))"
  unfolding get_geo_ids_def
  by (rule object_inv_prelude)
     (simp_all add: case_prod_beta geo_id_cache_index_populated object_inv_cache_inv)

lemma object_inv_get_geo_ids_for_subdetector:
  "object_inv c s \<Longrightarrow> object_inv c (snd (get_geo_ids_for_subdetector X f rid sd s))"
  unfolding get_geo_ids_for_subdetector_def
  by (rule object_inv_prelude)
     (simp_all add: case_prod_beta geo_id_cache_index_populated object_inv_cache_inv)

lemma object_inv_get_geo_ids_for_source_id:
  "object_inv c s \<Longrightarrow> object_inv c (snd (get_geo_ids_for_source_id X f rid sid s))"
  unfolding get_geo_ids_for_source_id_def
  by (rule object_inv_prelude) (simp_all add: case_prod_beta object_inv_geo_id_index_source_id)

lemma object_inv_get_source_id_for_geo_id:
  "object_inv c s \<Longrightarrow> object_inv c (snd (get_source_id_for_geo_id X f rid g s))"
  unfolding get_source_id_for_geo_id_def
  by (rule object_inv_prelude)
     (simp_all add: case_prod_beta geo_id_cache_index_populated object_inv_cache_inv
        split: option.splits)

lemma object_inv_get_frag_ptr:
  "object_inv c s \<Longrightarrow> object_inv c (snd (get_frag_ptr X f rid sid s))"
proof (cases "get_version s < 2")
  case True
  assume "object_inv c s"
  with True show ?thesis by (simp add: get_frag_ptr_def)
next
  case False
  assume "object_inv c s"
  then have "object_inv c (snd (and_then (find_record_id X f rid s) (\<lambda>_ s1.
        and_then (add_record_level_info_to_caches_if_needed X f rid s1) (\<lambda>_ s2.
          let (p, s3) = path_cache_index rid sid s2
          in (get_dataset_raw_data f p, s3)))))"
    by (rule object_inv_prelude) (simp add: case_prod_beta object_inv_path_cache_index)
  with False show ?thesis by (simp add: get_frag_ptr_def)
qed

lemma get_tsh_ptr_eq: "get_tsh_ptr X f rid s = get_trh_ptr X f rid s"
  by (simp add: get_tsh_ptr_def get_trh_ptr_def)

lemma typed_record_ids_cases:
  "snd (get_all_trigger_record_ids X f s) = s \<or>
   snd (get_all_trigger_record_ids X f s) = snd (get_all_record_ids X f s)"
  "snd (get_all_timeslice_ids X f s) = s \<or>
   snd (get_all_timeslice_ids X f s) = snd (get_all_record_ids X f s)"
  by (simp_all add: get_all_trigger_record_ids_def get_all_timeslice_ids_def split: sum.splits)

lemma object_inv_typed_record_ids:
  assumes "object_inv c s"
  shows "object_inv c (snd (get_all_trigger_record_ids X f s))"
    and "object_inv c (snd (get_all_timeslice_ids X f s))"
  using typed_record_ids_cases[of X f s] assms object_inv_get_all_record_ids[OF assms, of X f]
  by auto

lemma object_inv_get_trh_ptr:
  "object_inv c s \<Longrightarrow> object_inv c (snd (get_trh_ptr X f rid s))"
proof (cases "get_version s < 2")
  case True
  assume "object_inv c s"
  with True show ?thesis by (simp add: get_trh_ptr_def)
next
  case False
  assume "object_inv c s"
  then have "object_inv c (snd (and_then (find_record_id X f rid s) (\<lambda>_ s1.
        and_then (add_record_level_info_to_caches_if_needed X f rid s1) (\<lambda>_ s2.
          let (rh_source_id, s3) = record_header_source_id_cache_index X rid s2;
              (p, s4) = path_cache_index rid rh_source_id s3
          in (get_dataset_raw_data f p, s4)))))"
    by (rule object_inv_prelude)
       (simp add: case_prod_beta record_header_source_id_cache_index_populated
          object_inv_cache_inv object_inv_path_cache_index)
  with False show ?thesis by (simp add: get_trh_ptr_def)
qed

lemma find_record_id_path_cache:
  "m_source_id_path_cache (snd (find_record_id X f rid s)) = m_source_id_path_cache s"
  by (subst find_record_id_frame) simp

lemma prelude_returns:
  assumes "cache_inv s"
    and "and_then (find_record_id X f rid s) (\<lambda>_ s1.
           and_then (add_record_level_info_to_caches_if_needed X f rid s1) (\<lambda>_. k)) = (Inr v, s')"
  obtains s2 where "cache_inv s2" and "m_source_id_path_cache s2 rid \<noteq> None"
    and "k s2 = (Inr v, s')"
    and "m_source_id_path_cache s rid \<noteq> None \<Longrightarrow>
           s2 = s\<lparr>m_all_record_ids_in_file := m_all_record_ids_in_file s2\<rparr>"
  using assms(2)
proof (cases rule: prelude_cases)
  case (find_throws e)
  then show ?thesis by simp
next
  case (add_throws e)
  then show ?thesis by simp
next
  case (tail s1 s2)
  from cache_inv_find_record_id[OF assms(1), of X f rid] tail(1) have inv1: "cache_inv s1" by simp
  from cache_inv_add_record_level_info[OF inv1, of X f rid] tail(2) have inv2: "cache_inv s2" by simp
  from tail(2) have pop: "m_source_id_path_cache s2 rid \<noteq> None"
    by (rule add_record_level_info_sentinel)
  have same: "s2 = s\<lparr>m_all_record_ids_in_file := m_all_record_ids_in_file s2\<rparr>"
    if "m_source_id_path_cache s rid \<noteq> None"
  proof -
    from find_record_id_frame[of X f rid s] tail(1)
    have s1: "s1 = s\<lparr>m_all_record_ids_in_file := m_all_record_ids_in_file s1\<rparr>" by simp
    from find_record_id_path_cache[of X f rid s] tail(1) that
    have "m_source_id_path_cache s1 rid \<noteq> None" by simp
    from add_record_level_info_populated[OF this, of X f] tail(2) have "s2 = s1" by simp
    with s1 show ?thesis by simp
  qed
  from inv2 pop tail(3) same show ?thesis by (rule that)
qed


lemma get_source_ids_returns:
  assumes "cache_inv s" and "get_source_ids X f rid s = (Inr v, s')"
  shows "cache_inv s'" and "m_source_id_path_cache s' rid \<noteq> None"
    and "m_source_id_cache s' rid = Some v"
    and "m_source_id_path_cache s rid \<noteq> None \<Longrightarrow>
           s' = s\<lparr>m_all_record_ids_in_file := m_all_record_ids_in_file s'\<rparr>"
proof -
  have "cache_inv s' \<and> m_source_id_path_cache s' rid \<noteq> None \<and> m_source_id_cache s' rid = Some v \<and>
        (m_source_id_path_cache s rid \<noteq> None \<longrightarrow>
           s' = s\<lparr>m_all_record_ids_in_file := m_all_record_ids_in_file s'\<rparr>)"
    using assms(2) unfolding get_source_ids_def
  proof (rule prelude_returns[OF assms(1)])
    fix s2
    assume s2: "cache_inv s2" "m_source_id_path_cache s2 rid \<noteq> None"
      and k: "(let (v, s3) = source_id_cache_index rid s2 in (Inr v, s3)) = (Inr v, s')"
      and same: "m_source_id_path_cache s rid \<noteq> None \<Longrightarrow>
           s2 = s\<lparr>m_all_record_ids_in_file := m_all_record_ids_in_file s2\<rparr>"
    from k s2 have eq: "s' = s2" "v = the (m_source_id_cache s2 rid)"
      by (auto simp: source_id_cache_index_populated)
    from cache_inv_populated(1)[OF s2] eq have "m_source_id_cache s' rid = Some v" by auto
    with s2 same eq show ?thesis by simp
  qed
  then show "cache_inv s'" and "m_source_id_path_cache s' rid \<noteq> None"
    and "m_source_id_cache s' rid = Some v"
    and "m_source_id_path_cache s rid \<noteq> None \<Longrightarrow>
           s' = s\<lparr>m_all_record_ids_in_file := m_all_record_ids_in_file s'\<rparr>"
    by simp_all
qed

lemma get_record_header_source_id_returns:
  assumes "cache_inv s" and "get_record_header_source_id X f rid s = (Inr v, s')"
  shows "cache_inv s'" and "m_source_id_path_cache s' rid \<noteq> None"
    and "m_record_header_source_id_cache s' rid = Some v"
    and "m_source_id_path_cache s rid \<noteq> None \<Longrightarrow>
           s' = s\<lparr>m_all_record_ids_in_file := m_all_record_ids_in_file s'\<rparr>"
proof -
  have "cache_inv s' \<and> m_source_id_path_cache s' rid \<noteq> None \<and> m_record_header_source_id_cache s' rid = Some v \<and>
        (m_source_id_path_cache s rid \<noteq> None \<longrightarrow>
           s' = s\<lparr>m_all_record_ids_in_file := m_all_record_ids_in_file s'\<rparr>)"
    using assms(2) unfolding get_record_header_source_id_def
  proof (rule prelude_returns[OF assms(1)])
    fix s2
    assume s2: "cache_inv s2" "m_source_id_path_cache s2 rid \<noteq> None"
      and k: "(let (v, s3) = record_header_source_id_cache_index X rid s2 in (Inr v, s3)) = (Inr v, s')"
      and same: "m_source_id_path_cache s rid \<noteq> None \<Longrightarrow>
           s2 = s\<lparr>m_all_record_ids_in_file := m_all_record_ids_in_file s2\<rparr>"
    from k s2 have eq: "s' = s2" "v = the (m_record_header_source_id_cache s2 rid)"
      by (auto simp: record_header_source_id_cache_index_populated)
    from cache_inv_populated(2)[OF s2] eq have "m_record_header_source_id_cache s' rid = Some v" by auto
    with s2 same eq show ?thesis by simp
  qed
  then show "cache_inv s'" and "m_source_id_path_cache s' rid \<noteq> None"
    and "m_record_header_source_id_cache s' rid = Some v"
    and "m_source_id_path_cache s rid \<noteq> None \<Longrightarrow>
           s' = s\<lparr>m_all_record_ids_in_file := m_all_record_ids_in_file s'\<rparr>"
    by simp_all
qed

lemma get_fragment_source_ids_returns:
  assumes "cache_inv s" and "get_fragment_source_ids X f rid s = (Inr v, s')"
  shows "cache_inv s'" and "m_source_id_path_cache s' rid \<noteq> None"
    and "m_fragment_source_id_cache s' rid = Some v"
    and "m_source_id_path_cache s rid \<noteq> None \<Longrightarrow>
           s' = s\<lparr>m_all_record_ids_in_file := m_all_record_ids_in_file s'\<rparr>"
proof -
  have "cache_inv s' \<and> m_source_id_path_cache s' rid \<noteq> None \<and> m_fragment_source_id_cache s' rid = Some v \<and>
        (m_source_id_path_cache s rid \<noteq> None \<longrightarrow>
           s' = s\<lparr>m_all_record_ids_in_file := m_all_record_ids_in_file s'\<rparr>)"
    using assms(2) unfolding get_fragment_source_ids_def
  proof (rule prelude_returns[OF assms(1)])
    fix s2
    assume s2: "cache_inv s2" "m_source_id_path_cache s2 rid \<noteq> None"
      and k: "(let (v, s3) = fragment_source_id_cache_index rid s2 in (Inr v, s3)) = (Inr v, s')"
      and same: "m_source_id_path_cache s rid \<noteq> None \<Longrightarrow>
           s2 = s\<lparr>m_all_record_ids_in_file := m_all_record_ids_in_file s2\<rparr>"
    from k s2 have eq: "s' = s2" "v = the (m_fragment_source_id_cache s2 rid)"
      by (auto simp: fragment_source_id_cache_index_populated)
    from cache_inv_populated(3)[OF s2] eq have "m_fragment_source_id_cache s' rid = Some v" by auto
    with s2 same eq show ?thesis by simp
  qed
  then show "cache_inv s'" and "m_source_id_path_cache s' rid \<noteq> None"
    and "m_fragment_source_id_cache s' rid = Some v"
    and "m_source_id_path_cache s rid \<noteq> None \<Longrightarrow>
           s' = s\<lparr>m_all_record_ids_in_file := m_all_record_ids_in_file s'\<rparr>"
    by simp_all
qed

lemma object_inv_get_record_header_dataset_path:
  assumes "object_inv c s"
  shows "object_inv c (snd (get_record_header_dataset_path X f rid s))"
  unfolding get_record_header_dataset_path_def
proof (rule and_then_inv)
  show "object_inv c (snd (find_record_id X f rid s))"
    using assms by (rule object_inv_find_record_id)
next
  fix a s1
  assume found: "find_record_id X f rid s = (Inr a, s1)"
  with object_inv_find_record_id[OF assms, of X f rid] have inv1: "object_inv c s1" by simp
  have "object_inv c (snd (and_then (get_record_header_source_id X f rid s1) (\<lambda>source_id s2.
           let (p, s3) = path_cache_index rid source_id s2 in (Inr p, s3))))"
  proof (rule and_then_inv)
    show "object_inv c (snd (get_record_header_source_id X f rid s1))"
      using inv1 by (rule object_inv_get_record_header_source_id)
  next
    fix sid s2
    assume got: "get_record_header_source_id X f rid s1 = (Inr sid, s2)"
    with object_inv_get_record_header_source_id[OF inv1, of X f rid] have "object_inv c s2" by simp
    moreover from get_record_header_source_id_returns(2)[OF object_inv_cache_inv[OF inv1] got]
    have "m_source_id_path_cache s2 rid \<noteq> None" .
    ultimately show "object_inv c (snd (let (p, s3) = path_cache_index rid sid s2 in (Inr p, s3)))"
      by (simp add: case_prod_beta object_inv_path_cache_index)
  qed
  with inv1 show "object_inv c (snd (if get_version s1 \<le> 2
       then (Inr (getPath f @ get_record_header_path X (m_file_layout_ptr s1) (fst rid) (snd rid)), s1)
       else
         and_then (get_record_header_source_id X f rid s1) (\<lambda>source_id s2.
           let (p, s3) = path_cache_index rid source_id s2 in (Inr p, s3))))"
    by simp
qed

lemma object_inv_get_fragment_dataset_paths:
  assumes "object_inv c s"
  shows "object_inv c (snd (get_fragment_dataset_paths X f rid s))"
  unfolding get_fragment_dataset_paths_def
proof (rule and_then_inv)
  show "object_inv c (snd (find_record_id X f rid s))"
    using assms by (rule object_inv_find_record_id)
next
  fix a s1
  assume found: "find_record_id X f rid s = (Inr a, s1)"
  with object_inv_find_record_id[OF assms, of X f rid] have inv1: "object_inv c s1" by simp
  have "object_inv c (snd (and_then (get_fragment_source_ids X f rid s1) (\<lambda>source_id_list s2.
           let (frag_paths, s3) = frag_paths_loop rid (sorted_list_of_set source_id_list) [] s2
           in (Inr frag_paths, s3))))"
  proof (rule and_then_inv)
    show "object_inv c (snd (get_fragment_source_ids X f rid s1))"
      using inv1 by (rule object_inv_get_fragment_source_ids)
  next
    fix sids s2
    assume got: "get_fragment_source_ids X f rid s1 = (Inr sids, s2)"
    with object_inv_get_fragment_source_ids[OF inv1, of X f rid] have "object_inv c s2" by simp
    moreover from get_fragment_source_ids_returns(2)[OF object_inv_cache_inv[OF inv1] got]
    have "m_source_id_path_cache s2 rid \<noteq> None" .
    ultimately show "object_inv c (snd (let (frag_paths, s3) =
              frag_paths_loop rid (sorted_list_of_set sids) [] s2 in (Inr frag_paths, s3)))"
      by (simp add: case_prod_beta object_inv_frag_paths_loop)
  qed
  with inv1 show "object_inv c (snd (if get_version s1 \<le> 2
       then
         (case get_dataset_paths f
                 (getPath f @ get_record_number_string X (m_file_layout_ptr s1) (fst rid) (snd rid)) of
            Inl e \<Rightarrow> (Inl e, s1)
          | Inr paths \<Rightarrow>
              (Inr (filter (\<lambda>path.
                       str_find path (get_record_header_dataset_name X (m_file_layout_ptr s1)) = None)
                     paths),
               s1))
       else
         and_then (get_fragment_source_ids X f rid s1) (\<lambda>source_id_list s2.
           let (frag_paths, s3) = frag_paths_loop rid (sorted_list_of_set source_id_list) [] s2
           in (Inr frag_paths, s3))))"
    by (simp split: sum.splits)
qed

lemma snd_discard [simp]: "snd (discard r) = snd r"
  by (simp add: discard_def)

lemma object_inv_after_query:
  "object_inv c s \<Longrightarrow> object_inv c (after_query X f q s)"
  by (cases q)
     (simp_all add: after_query_def object_inv_get_all_record_ids object_inv_add_record_level_info
        object_inv_get_source_ids object_inv_get_record_header_source_id
        object_inv_get_fragment_source_ids object_inv_get_source_ids_for_subsystem
        object_inv_get_source_ids_for_fragment_type object_inv_get_source_ids_for_subdetector
        object_inv_get_geo_ids object_inv_get_geo_ids_for_subdetector
        object_inv_get_geo_ids_for_source_id object_inv_get_source_id_for_geo_id
        object_inv_get_record_header_dataset_path object_inv_get_fragment_dataset_paths
        object_inv_get_frag_ptr object_inv_get_trh_ptr get_tsh_ptr_eq
        object_inv_typed_record_ids)

lemma object_inv_after_queries:
  "object_inv c s \<Longrightarrow> object_inv c (after_queries X f qs s)"
  unfolding after_queries_def
  by (induction qs arbitrary: s) (simp_all add: object_inv_after_query)

lemma object_inv_ctor:
  "HDF5RawDataFile_ctor X f = Inr s \<Longrightarrow> object_inv (immutable_part s) s"
  by (simp add: object_inv_def cache_inv_ctor)

lemma reachable_object_inv:
  "reachable X f s \<Longrightarrow> \<exists>s0. HDF5RawDataFile_ctor X f = Inr s0 \<and> object_inv (immutable_part s0) s"
proof (induction rule: reachable.induct)
  case (constructed s)
  then show ?case by (auto intro: object_inv_ctor)
next
  case (queried s q)
  then show ?case by (auto intro: object_inv_after_query)
qed

lemma reachable_cache_inv: "reachable X f s \<Longrightarrow> cache_inv s"
  by (auto dest: reachable_object_inv object_inv_cache_inv)

subsection \<open>What population and the queries return\<close>

lemma add_record_level_info_group:
  "getGroup f (get_record_number_string X (m_file_layout_ptr s) (fst rid) (snd rid)) = Some g \<Longrightarrow>
   fst (add_record_level_info_to_caches_if_needed X f rid s) = Inr ()"
  by (simp add: add_record_level_info_to_caches_if_needed_def case_prod_beta Let_def)

lemma immutable_part_ctor:
  "HDF5RawDataFile_ctor X f = Inr s0 \<Longrightarrow>
   m_file_level_source_id_geo_id_map s0 =
     fetch_file_level_geo_id_info X (m_version (m_file_layout_ptr s0)) f []"
  by (auto simp: HDF5RawDataFile_ctor_def Let_def split: sum.splits)

lemma add_record_level_info_geo_map:
  "m_source_id_path_cache s rid = None \<Longrightarrow>
   getGroup f (get_record_number_string X (m_file_layout_ptr s) (fst rid) (snd rid)) = Some g \<Longrightarrow>
   m_source_id_geo_id_cache (snd (add_record_level_info_to_caches_if_needed X f rid s)) rid =
     Some (fetch_record_level_geo_id_info X (get_version s) g (m_file_level_source_id_geo_id_map s))"
  by (simp add: add_record_level_info_to_caches_if_needed_def case_prod_beta Let_def)

lemma same_caches_all_record_ids:
  assumes "s' = s\<lparr>m_all_record_ids_in_file := ids\<rparr>"
  shows "m_source_id_cache s' = m_source_id_cache s"
    and "m_record_header_source_id_cache s' = m_record_header_source_id_cache s"
    and "m_fragment_source_id_cache s' = m_fragment_source_id_cache s"
    and "m_source_id_path_cache s' = m_source_id_path_cache s"
  using assms by simp_all

lemma prelude_eval:
  assumes "cache_inv s" and "get_all_record_ids X f s = (Inr ids, s1)"
    and "add_record_level_info_to_caches_if_needed X f rid s1 = (Inr (), s2)"
  shows "and_then (find_record_id X f rid s) (\<lambda>_ s1.
           and_then (add_record_level_info_to_caches_if_needed X f rid s1) (\<lambda>_. k)) = k s2"
    and "cache_inv s2" and "m_source_id_path_cache s2 rid \<noteq> None"
proof -
  from assms(2) have "find_record_id X f rid s = (Inr (), s1)" by (rule find_record_id_found)
  with assms(3) show "and_then (find_record_id X f rid s) (\<lambda>_ s1.
           and_then (add_record_level_info_to_caches_if_needed X f rid s1) (\<lambda>_. k)) = k s2"
    by simp
  from cache_inv_get_all_record_ids[OF assms(1), of X f] assms(2) have "cache_inv s1" by simp
  from cache_inv_add_record_level_info[OF this, of X f rid] assms(3) show "cache_inv s2" by simp
  from assms(3) show "m_source_id_path_cache s2 rid \<noteq> None"
    by (rule add_record_level_info_sentinel)
qed

lemma get_source_ids_eval:
  assumes "cache_inv s" and "get_all_record_ids X f s = (Inr ids, s1)"
    and "add_record_level_info_to_caches_if_needed X f rid s1 = (Inr (), s2)"
  shows "get_source_ids X f rid s = (Inr (the (m_source_id_cache s2 rid)), s2)"
  unfolding get_source_ids_def prelude_eval(1)[OF assms]
  by (simp add: source_id_cache_index_populated[OF prelude_eval(2,3)[OF assms]])

lemma get_record_header_source_id_eval:
  assumes "cache_inv s" and "get_all_record_ids X f s = (Inr ids, s1)"
    and "add_record_level_info_to_caches_if_needed X f rid s1 = (Inr (), s2)"
  shows "get_record_header_source_id X f rid s =
           (Inr (the (m_record_header_source_id_cache s2 rid)), s2)"
  unfolding get_record_header_source_id_def prelude_eval(1)[OF assms]
  by (simp add: record_header_source_id_cache_index_populated[OF prelude_eval(2,3)[OF assms]])

lemma get_fragment_source_ids_eval:
  assumes "cache_inv s" and "get_all_record_ids X f s = (Inr ids, s1)"
    and "add_record_level_info_to_caches_if_needed X f rid s1 = (Inr (), s2)"
  shows "get_fragment_source_ids X f rid s = (Inr (the (m_fragment_source_id_cache s2 rid)), s2)"
  unfolding get_fragment_source_ids_def prelude_eval(1)[OF assms]
  by (simp add: fragment_source_id_cache_index_populated[OF prelude_eval(2,3)[OF assms]])

subsection \<open>Parsing of child names\<close>

lemma str_find_None_iff: "str_find s pat = None \<longleftrightarrow> \<not> sublist pat s"
proof (induction s)
  case Nil
  then show ?case by auto
next
  case (Cons c t)
  then show ?case by (auto simp: sublist_Cons_right)
qed

lemma str_find_char: "str_find s [c] = None \<longleftrightarrow> c \<notin> set s"
  by (induction s) auto

lemma isdigit_not_special:
  assumes "isdigit c"
  shows "\<not> isspace c" and "c \<noteq> CHR ''-''" and "c \<noteq> CHR ''+''" and "c \<noteq> CHR ''.''"
  using assms by (auto simp: isdigit_def isspace_def)

lemma stoi_digits:
  assumes "ds \<noteq> []" and "\<forall>c \<in> set ds. isdigit c"
  shows "stoi ds = (if 2 ^ 31 - 1 < decimal_value ds then Inl StoiOutOfRange
                    else if decimal_value ds < - (2 ^ 31) then Inl StoiOutOfRange
                    else Inr (decimal_value ds))"
proof -
  from assms obtain c r where ds: "ds = c # r" by (cases ds) auto
  with assms(2) have c: "isdigit c" by simp
  from assms(2) have tw: "takeWhile isdigit ds = ds" by simp
  from ds isdigit_not_special[OF c] have dw: "dropWhile isspace ds = ds" by simp
  show ?thesis
    unfolding stoi_def dw
    using ds isdigit_not_special[OF c] tw assms(1)
    by (auto simp: Let_def)
qed

lemma stoi_no_number:
  assumes "rest = [] \<or> \<not> (isdigit (hd rest) \<or> isspace (hd rest) \<or> hd rest = CHR ''-'' \<or> hd rest = CHR ''+'')"
  shows "stoi (take n rest) = Inl StoiInvalidArgument"
proof (cases "take n rest")
  case Nil
  have "stoi [] = Inl StoiInvalidArgument" by (simp add: stoi_def)
  then show ?thesis unfolding Nil .
next
  case (Cons c r)
  then have "rest \<noteq> []" and "hd rest = c" by (cases rest; cases n; auto)+
  with assms have "\<not> isdigit c" "\<not> isspace c" "c \<noteq> CHR ''-''" "c \<noteq> CHR ''+''" by auto
  then have "stoi (c # r) = Inl StoiInvalidArgument" by (simp add: stoi_def Let_def)
  then show ?thesis unfolding Cons .
qed

lemma record_id_of_name_prefixed:
  "record_id_of_name pfx (pfx @ rest) =
     (case str_find rest ''.'' of
        None \<Rightarrow> (case stoi rest of Inl e \<Rightarrow> Some (Inl e) | Inr n \<Rightarrow> Some (Inr (word_of_int n, 0)))
      | Some loc \<Rightarrow>
          (case stoi (take loc rest) of
             Inl e \<Rightarrow> Some (Inl e)
           | Inr n \<Rightarrow>
               (case stoi (drop (Suc loc) rest) of
                  Inl e \<Rightarrow> Some (Inl e)
                | Inr q \<Rightarrow> Some (Inr (word_of_int n, word_of_int q)))))"
  by (simp add: record_id_of_name_def str_find_prefix Let_def split: option.splits)

lemma record_id_of_name_out_of_range:
  assumes "ds \<noteq> []" and "\<forall>c \<in> set ds. isdigit c" and "2 ^ 31 \<le> decimal_value ds"
  shows "record_id_of_name pfx (pfx @ ds) = Some (Inl StoiOutOfRange)"
proof -
  from assms(2) have "CHR ''.'' \<notin> set ds" using isdigit_not_special(4) by blast
  then have "str_find ds ''.'' = None" by (simp add: str_find_char)
  with stoi_digits[OF assms(1,2)] assms(3) show ?thesis
    by (simp add: record_id_of_name_prefixed)
qed

lemma record_id_of_name_no_number:
  assumes "rest = [] \<or> \<not> (isdigit (hd rest) \<or> isspace (hd rest) \<or> hd rest = CHR ''-'' \<or> hd rest = CHR ''+'')"
  shows "record_id_of_name pfx (pfx @ rest) = Some (Inl StoiInvalidArgument)"
proof (cases "str_find rest ''.''")
  case None
  with stoi_no_number[OF assms, of "length rest"] show ?thesis
    by (simp add: record_id_of_name_prefixed)
next
  case (Some loc)
  with stoi_no_number[OF assms, of loc] show ?thesis
    by (simp add: record_id_of_name_prefixed)
qed

lemma record_id_of_name_skips_iff:
  "record_id_of_name pfx name = None \<longleftrightarrow> \<not> sublist pfx name"
  by (auto simp: record_id_of_name_def Let_def str_find_None_iff[symmetric]
        split: option.splits sum.splits)

lemma get_all_record_ids_scan:
  assumes "m_all_record_ids_in_file s = {}" and "getGroup f (getPath f) = Some root"
  shows "get_all_record_ids X f s =
     (case record_ids_loop (get_record_name_prefix X (m_file_layout_ptr s)) (listObjectNames root) {} of
        (Inl e, ids) \<Rightarrow> (Inl e, s\<lparr>m_all_record_ids_in_file := ids\<rparr>)
      | (Inr u, ids) \<Rightarrow> (Inr ids, s\<lparr>m_all_record_ids_in_file := ids\<rparr>))"
  using assms by (simp add: get_all_record_ids_def Let_def split: prod.splits sum.splits)

lemma get_all_record_ids_throws:
  assumes "m_all_record_ids_in_file s = {}" and "getGroup f (getPath f) = Some root"
    and "name \<in> set (listObjectNames root)"
    and "record_id_of_name (get_record_name_prefix X (m_file_layout_ptr s)) name = Some (Inl e)"
  shows "\<exists>e' s'. get_all_record_ids X f s = (Inl e', s')"
proof -
  from assms(3,4)
  have "\<exists>n \<in> set (listObjectNames root). \<exists>e.
          record_id_of_name (get_record_name_prefix X (m_file_layout_ptr s)) n = Some (Inl e)"
    by blast
  from record_ids_loop_throws[OF this, of "{}"] get_all_record_ids_scan[OF assms(1,2), of X]
  show ?thesis by auto
qed

lemma get_all_record_ids_parsed:
  assumes "m_all_record_ids_in_file s = {}" and "getGroup f (getPath f) = Some root"
    and "name \<in> set (listObjectNames root)"
    and "sublist (get_record_name_prefix X (m_file_layout_ptr s)) name"
  shows "(\<exists>e s'. get_all_record_ids X f s = (Inl e, s')) \<or>
         (\<exists>rid ids s'. get_all_record_ids X f s = (Inr ids, s') \<and>
            record_id_of_name (get_record_name_prefix X (m_file_layout_ptr s)) name = Some (Inr rid) \<and>
            rid \<in> ids)"
proof (cases "\<exists>n \<in> set (listObjectNames root). \<exists>e.
          record_id_of_name (get_record_name_prefix X (m_file_layout_ptr s)) n = Some (Inl e)")
  case True
  from record_ids_loop_throws[OF this, of "{}"] get_all_record_ids_scan[OF assms(1,2), of X]
  show ?thesis by auto
next
  case False
  then have parse: "\<forall>n \<in> set (listObjectNames root). \<forall>e.
      record_id_of_name (get_record_name_prefix X (m_file_layout_ptr s)) n \<noteq> Some (Inl e)"
    by blast
  from assms(4) obtain r where r: "record_id_of_name (get_record_name_prefix X (m_file_layout_ptr s)) name = Some r"
    using record_id_of_name_skips_iff[of "get_record_name_prefix X (m_file_layout_ptr s)" name]
    by auto
  with parse assms(3) obtain rid where rid: "r = Inr rid" by (cases r) auto
  from record_ids_loop_all_parse[OF parse, of "{}"] get_all_record_ids_scan[OF assms(1,2), of X]
    r rid assms(3)
  show ?thesis by auto
qed

lemma get_all_record_ids_one_child:
  assumes "m_all_record_ids_in_file s = {}" and "getGroup f (getPath f) = Some root"
    and "listObjectNames root = [name]"
  shows "get_all_record_ids X f s =
     (case record_id_of_name (get_record_name_prefix X (m_file_layout_ptr s)) name of
        None \<Rightarrow> (Inr {}, s)
      | Some (Inl e) \<Rightarrow> (Inl e, s)
      | Some (Inr rid) \<Rightarrow> (Inr {rid}, s\<lparr>m_all_record_ids_in_file := {rid}\<rparr>))"
proof -
  from assms(1) have "s\<lparr>m_all_record_ids_in_file := {}\<rparr> = s" by simp
  with get_all_record_ids_scan[OF assms(1,2), of X] assms(3) show ?thesis
    by (simp split: option.splits sum.splits)
qed

subsection \<open>The record check in the queries\<close>

lemma discard_Inl [simp]: "discard (Inl e, s) = (Inl e, s)"
  by (simp add: discard_def)

lemma fst_discard_Inl [simp]: "(fst (discard r) = Inl e) = (fst r = Inl e)"
  by (cases r; cases "fst r") (auto simp: discard_def)

lemma and_then_not_error:
  assumes "fst r \<noteq> Inl e" and "\<And>a s. r = (Inr a, s) \<Longrightarrow> fst (k a s) \<noteq> Inl e"
  shows "fst (and_then r k) \<noteq> Inl e"
proof (cases r)
  case (Pair x s)
  then show ?thesis using assms by (cases x) auto
qed

lemma add_record_level_info_not_record_error:
  "fst (add_record_level_info_to_caches_if_needed X f rid s) \<noteq> Inl (RecordIDNotFound a b)"
proof
  assume "fst (add_record_level_info_to_caches_if_needed X f rid s) = Inl (RecordIDNotFound a b)"
  then have "add_record_level_info_to_caches_if_needed X f rid s =
      (Inl (RecordIDNotFound a b), snd (add_record_level_info_to_caches_if_needed X f rid s))"
    by (metis prod.collapse)
  from add_record_level_info_errors[OF this] show False by auto
qed

lemma prelude_found:
  assumes "get_all_record_ids X f s = (Inr ids, s1)"
  shows "and_then (find_record_id X f rid s) k = k () s1"
  using find_record_id_found[OF assms, of rid] by simp

lemma populate_then_not_record_error:
  assumes "\<And>s2. fst (k s2) \<noteq> Inl (RecordIDNotFound a b)"
  shows "fst (and_then (add_record_level_info_to_caches_if_needed X f rid s1) (\<lambda>_. k)) \<noteq>
           Inl (RecordIDNotFound a b)"
  by (rule and_then_not_error) (simp_all add: add_record_level_info_not_record_error assms)

lemma getters_no_record_error:
  assumes "get_all_record_ids X f s = (Inr ids, s1)"
  shows "fst (get_source_ids X f rid s) \<noteq> Inl (RecordIDNotFound a b)"
    and "fst (get_fragment_source_ids X f rid s) \<noteq> Inl (RecordIDNotFound a b)"
    and "fst (get_record_header_source_id X f rid s) \<noteq> Inl (RecordIDNotFound a b)"
    and "fst (get_source_ids_for_subsystem X f rid ss s) \<noteq> Inl (RecordIDNotFound a b)"
    and "fst (get_source_ids_for_fragment_type X f rid ft s) \<noteq> Inl (RecordIDNotFound a b)"
    and "fst (get_source_ids_for_subdetector X f rid sd s) \<noteq> Inl (RecordIDNotFound a b)"
    and "fst (get_geo_ids X f rid s) \<noteq> Inl (RecordIDNotFound a b)"
    and "fst (get_geo_ids_for_subdetector X f rid sd s) \<noteq> Inl (RecordIDNotFound a b)"
    and "fst (get_geo_ids_for_source_id X f rid sid s) \<noteq> Inl (RecordIDNotFound a b)"
    and "fst (get_source_id_for_geo_id X f rid g s) \<noteq> Inl (RecordIDNotFound a b)"
  unfolding get_source_ids_def get_fragment_source_ids_def get_record_header_source_id_def
    get_source_ids_for_subsystem_def get_source_ids_for_fragment_type_def
    get_source_ids_for_subdetector_def get_geo_ids_def get_geo_ids_for_subdetector_def
    get_geo_ids_for_source_id_def get_source_id_for_geo_id_def prelude_found[OF assms]
  by (rule populate_then_not_record_error; simp add: case_prod_beta split: option.splits)+

lemma path_queries_no_record_error:
  assumes "get_all_record_ids X f s = (Inr ids, s1)"
  shows "fst (get_record_header_dataset_path X f rid s) \<noteq> Inl (RecordIDNotFound a b)"
    and "fst (get_fragment_dataset_paths X f rid s) \<noteq> Inl (RecordIDNotFound a b)"
proof -
  note again = get_all_record_ids_again[OF assms]
  have "fst (and_then (get_record_header_source_id X f rid s1) (\<lambda>source_id s2.
           let (p, s3) = path_cache_index rid source_id s2 in (Inr p, s3))) \<noteq>
          Inl (RecordIDNotFound a b)"
    by (rule and_then_not_error)
       (simp_all add: getters_no_record_error(3)[OF again] case_prod_beta)
  then show "fst (get_record_header_dataset_path X f rid s) \<noteq> Inl (RecordIDNotFound a b)"
    unfolding get_record_header_dataset_path_def prelude_found[OF assms] by simp
  have "fst (and_then (get_fragment_source_ids X f rid s1) (\<lambda>source_id_list s2.
           let (frag_paths, s3) = frag_paths_loop rid (sorted_list_of_set source_id_list) [] s2
           in (Inr frag_paths, s3))) \<noteq> Inl (RecordIDNotFound a b)"
    by (rule and_then_not_error)
       (simp_all add: getters_no_record_error(2)[OF again] case_prod_beta)
  then show "fst (get_fragment_dataset_paths X f rid s) \<noteq> Inl (RecordIDNotFound a b)"
    unfolding get_fragment_dataset_paths_def prelude_found[OF assms]
    by (auto simp: get_dataset_paths_def Let_def split: sum.splits option.splits)
qed

lemma record_check_never_fires:
  assumes "get_all_record_ids X f s = (Inr ids, s1)"
    and "q \<in> set (per_record_queries rid ss ft sd sid g)"
  shows "fst (run_query X f q s) \<noteq> Inl (RecordIDNotFound a b)"
  using assms(2) unfolding per_record_queries_def
  by (auto simp: getters_no_record_error[OF assms(1)] path_queries_no_record_error[OF assms(1)])

subsection \<open>Exceptions of the typed retrieval\<close>

lemma stoi_errors: "stoi str = Inl e \<Longrightarrow> e = StoiInvalidArgument \<or> e = StoiOutOfRange"
  by (auto simp: stoi_def Let_def split: if_splits)

lemma record_id_of_name_errors:
  "record_id_of_name pfx name = Some (Inl e) \<Longrightarrow> e = StoiInvalidArgument \<or> e = StoiOutOfRange"
  by (auto simp: record_id_of_name_def Let_def split: option.splits sum.splits dest: stoi_errors)

lemma record_ids_loop_errors:
  "fst (record_ids_loop pfx names ids) = Inl e \<Longrightarrow> e = StoiInvalidArgument \<or> e = StoiOutOfRange"
proof (induction names arbitrary: ids)
  case Nil
  then show ?case by simp
next
  case (Cons n names)
  show ?case
  proof (cases "record_id_of_name pfx n")
    case None
    with Cons show ?thesis by simp
  next
    case (Some r)
    show ?thesis
    proof (cases r)
      case (Inl e')
      with Some Cons.prems have "e' = e" by simp
      with Some Inl show ?thesis by (auto dest: record_id_of_name_errors)
    next
      case (Inr rid)
      with Some Cons show ?thesis by simp
    qed
  qed
qed

lemma get_all_record_ids_errors:
  assumes "fst (get_all_record_ids X f s) = Inl e"
  shows "e = StoiInvalidArgument \<or> e = StoiOutOfRange \<or> e = InvalidHDF5Group (getPath f)"
proof (cases "m_all_record_ids_in_file s = {}")
  case False
  with assms show ?thesis by (simp add: get_all_record_ids_def)
next
  case True
  show ?thesis
  proof (cases "getGroup f (getPath f)")
    case None
    with True assms show ?thesis by (simp add: get_all_record_ids_def)
  next
    case (Some root)
    from get_all_record_ids_scan[OF True Some, of X] assms
    have "fst (record_ids_loop (get_record_name_prefix X (m_file_layout_ptr s))
                 (listObjectNames root) {}) = Inl e"
      by (auto split: prod.splits sum.splits)
    then show ?thesis by (auto dest: record_ids_loop_errors)
  qed
qed

lemma find_record_id_errors:
  assumes "fst (find_record_id X f rid s) = Inl e"
  shows "e = StoiInvalidArgument \<or> e = StoiOutOfRange \<or> e = InvalidHDF5Group (getPath f)"
proof (cases "get_all_record_ids X f s")
  case (Pair r s1)
  show ?thesis
  proof (cases r)
    case (Inl e')
    with Pair assms have "e' = e" by (simp add: find_record_id_throws)
    with Pair Inl get_all_record_ids_errors[of X f s e] show ?thesis by auto
  next
    case (Inr ids)
    with Pair assms find_record_id_found[of X f s ids s1 rid] show ?thesis
      by simp
  qed
qed

lemma add_record_level_info_errors_fst:
  assumes "fst (add_record_level_info_to_caches_if_needed X f rid s) = Inl e"
  shows "\<exists>name. e = InvalidHDF5Group name"
proof -
  from assms have "add_record_level_info_to_caches_if_needed X f rid s =
      (Inl e, snd (add_record_level_info_to_caches_if_needed X f rid s))"
    by (metis prod.collapse)
  from add_record_level_info_errors[OF this] show ?thesis by simp
qed

lemma get_dataset_raw_data_errors:
  "get_dataset_raw_data f p = Inl e \<Longrightarrow> e = InvalidHDF5Group ''/'' \<or> e = InvalidHDF5Dataset p"
  by (auto simp: get_dataset_raw_data_def split: option.splits)

lemma get_frag_ptr_gate_only:
  assumes "\<not> get_version s < 2"
  shows "fst (get_frag_ptr X f rid source_id s) \<noteq> Inl (IncompatibleFileLayoutVersion a b c)"
proof -
  have "fst (and_then (find_record_id X f rid s) (\<lambda>_ s1.
        and_then (add_record_level_info_to_caches_if_needed X f rid s1) (\<lambda>_ s2.
          let (p, s3) = path_cache_index rid source_id s2
          in (get_dataset_raw_data f p, s3)))) \<noteq> Inl (IncompatibleFileLayoutVersion a b c)"
  proof (rule and_then_not_error)
    show "fst (find_record_id X f rid s) \<noteq> Inl (IncompatibleFileLayoutVersion a b c)"
      using find_record_id_errors[of X f rid s "IncompatibleFileLayoutVersion a b c"] by auto
  next
    fix u s1
    show "fst (and_then (add_record_level_info_to_caches_if_needed X f rid s1) (\<lambda>_ s2.
          let (p, s3) = path_cache_index rid source_id s2
          in (get_dataset_raw_data f p, s3))) \<noteq> Inl (IncompatibleFileLayoutVersion a b c)"
    proof (rule and_then_not_error)
      show "fst (add_record_level_info_to_caches_if_needed X f rid s1) \<noteq>
              Inl (IncompatibleFileLayoutVersion a b c)"
        using add_record_level_info_errors_fst[of X f rid s1 "IncompatibleFileLayoutVersion a b c"]
        by auto
    next
      fix u' s2
      show "fst (let (p, s3) = path_cache_index rid source_id s2
                 in (get_dataset_raw_data f p, s3)) \<noteq> Inl (IncompatibleFileLayoutVersion a b c)"
        using get_dataset_raw_data_errors[of f "fst (path_cache_index rid source_id s2)"
            "IncompatibleFileLayoutVersion a b c"]
        by (auto simp: case_prod_beta)
    qed
  qed
  with assms show ?thesis by (simp add: get_frag_ptr_def)
qed

lemma index_alist_present: "map_of m k = Some v \<Longrightarrow> index_alist m k d = (v, m)"
  by (simp add: index_alist_def)

lemma get_frag_ptr_returns:
  assumes "\<not> get_version s < 2" and "get_all_record_ids X f s = (Inr ids, s1)" and "rid \<in> ids"
    and "add_record_level_info_to_caches_if_needed X f rid s1 = (Inr (), s2)"
    and "m_source_id_path_cache s2 rid = Some pm" and "map_of pm source_id = Some p"
    and "getGroup f ''/'' = Some root" and "getDataSet f p = Some membuffer"
  shows "get_frag_ptr X f rid source_id s = (Inr membuffer, s2)"
proof -
  from assms(5) have "(m_source_id_path_cache s2)(rid \<mapsto> pm) = m_source_id_path_cache s2"
    by (rule map_upd_triv)
  with assms(5,6) have "path_cache_index rid source_id s2 = (p, s2)"
    by (simp add: path_cache_index_populated index_alist_present)
  moreover from assms(7,8) have "get_dataset_raw_data f p = Inr membuffer"
    by (simp add: get_dataset_raw_data_def)
  ultimately show ?thesis
    using assms(1,4) by (simp add: get_frag_ptr_def prelude_found[OF assms(2)])
qed

subsection \<open>Keys stay in the caches\<close>

lemma path_cache_keys_add_record_level_info:
  "K \<subseteq> dom (m_source_id_path_cache s) \<Longrightarrow>
   K \<subseteq> dom (m_source_id_path_cache (snd (add_record_level_info_to_caches_if_needed X f rid s)))"
  by (auto simp: add_record_level_info_to_caches_if_needed_def Let_def case_prod_beta
        split: option.splits)

lemma path_cache_after_index:
  "m_source_id_path_cache (snd (source_id_cache_index rid s)) = m_source_id_path_cache s"
  "m_source_id_path_cache (snd (record_header_source_id_cache_index X rid s)) = m_source_id_path_cache s"
  "m_source_id_path_cache (snd (fragment_source_id_cache_index rid s)) = m_source_id_path_cache s"
  "m_source_id_path_cache (snd (subsystem_source_id_cache_index rid ss s)) = m_source_id_path_cache s"
  "m_source_id_path_cache (snd (fragment_type_source_id_cache_index rid ft s)) = m_source_id_path_cache s"
  "m_source_id_path_cache (snd (subdetector_source_id_cache_index rid sd s)) = m_source_id_path_cache s"
  "m_source_id_path_cache (snd (geo_id_cache_index rid s)) = m_source_id_path_cache s"
  "m_source_id_path_cache (snd (geo_id_cache_index_source_id rid sid s)) = m_source_id_path_cache s"
  by (simp_all add: source_id_cache_index_def record_header_source_id_cache_index_def
        fragment_source_id_cache_index_def subsystem_source_id_cache_index_def
        fragment_type_source_id_cache_index_def subdetector_source_id_cache_index_def
        geo_id_cache_index_def geo_id_cache_index_source_id_def case_prod_beta)

lemma path_cache_keys_path_cache_index:
  "K \<subseteq> dom (m_source_id_path_cache s) \<Longrightarrow>
   K \<subseteq> dom (m_source_id_path_cache (snd (path_cache_index rid sid s)))"
  by (auto simp: path_cache_index_def index_map_def case_prod_beta split: option.splits)

lemma path_cache_keys_frag_paths_loop:
  "K \<subseteq> dom (m_source_id_path_cache s) \<Longrightarrow>
   K \<subseteq> dom (m_source_id_path_cache (snd (frag_paths_loop rid sids frag_paths s)))"
proof (induction sids arbitrary: frag_paths s)
  case Nil
  then show ?case by simp
next
  case (Cons sid sids)
  from path_cache_keys_path_cache_index[OF Cons.prems, of rid sid] Cons.IH show ?case
    by (simp add: case_prod_beta)
qed

lemma path_cache_keys_prelude:
  assumes "K \<subseteq> dom (m_source_id_path_cache s)"
    and "\<And>s2. K \<subseteq> dom (m_source_id_path_cache s2) \<Longrightarrow>
           K \<subseteq> dom (m_source_id_path_cache (snd (k s2)))"
  shows "K \<subseteq> dom (m_source_id_path_cache (snd (and_then (find_record_id X f rid s) (\<lambda>_ s1.
           and_then (add_record_level_info_to_caches_if_needed X f rid s1) (\<lambda>_. k)))))"
  by (rule prelude_preserves[where I = "\<lambda>s'. K \<subseteq> dom (m_source_id_path_cache s')"])
     (simp_all add: assms path_cache_keys_add_record_level_info)

lemma path_cache_keys_getters:
  assumes "K \<subseteq> dom (m_source_id_path_cache s)"
  shows "K \<subseteq> dom (m_source_id_path_cache (snd (get_source_ids X f rid s)))"
    and "K \<subseteq> dom (m_source_id_path_cache (snd (get_record_header_source_id X f rid s)))"
    and "K \<subseteq> dom (m_source_id_path_cache (snd (get_fragment_source_ids X f rid s)))"
    and "K \<subseteq> dom (m_source_id_path_cache (snd (get_source_ids_for_subsystem X f rid ss s)))"
    and "K \<subseteq> dom (m_source_id_path_cache (snd (get_source_ids_for_fragment_type X f rid ft s)))"
    and "K \<subseteq> dom (m_source_id_path_cache (snd (get_source_ids_for_subdetector X f rid sd s)))"
    and "K \<subseteq> dom (m_source_id_path_cache (snd (get_geo_ids X f rid s)))"
    and "K \<subseteq> dom (m_source_id_path_cache (snd (get_geo_ids_for_subdetector X f rid sd s)))"
    and "K \<subseteq> dom (m_source_id_path_cache (snd (get_geo_ids_for_source_id X f rid sid s)))"
    and "K \<subseteq> dom (m_source_id_path_cache (snd (get_source_id_for_geo_id X f rid g s)))"
  unfolding get_source_ids_def get_fragment_source_ids_def get_record_header_source_id_def
    get_source_ids_for_subsystem_def get_source_ids_for_fragment_type_def
    get_source_ids_for_subdetector_def get_geo_ids_def get_geo_ids_for_subdetector_def
    get_geo_ids_for_source_id_def get_source_id_for_geo_id_def
  by (rule path_cache_keys_prelude[OF assms];
      simp add: case_prod_beta path_cache_after_index split: option.splits)+

lemma path_cache_keys_typed:
  assumes "K \<subseteq> dom (m_source_id_path_cache s)"
  shows "K \<subseteq> dom (m_source_id_path_cache (snd (get_frag_ptr X f rid sid s)))"
    and "K \<subseteq> dom (m_source_id_path_cache (snd (get_trh_ptr X f rid s)))"
proof -
  have "K \<subseteq> dom (m_source_id_path_cache (snd (and_then (find_record_id X f rid s) (\<lambda>_ s1.
        and_then (add_record_level_info_to_caches_if_needed X f rid s1) (\<lambda>_ s2.
          let (p, s3) = path_cache_index rid sid s2
          in (get_dataset_raw_data f p, s3))))))"
    by (rule path_cache_keys_prelude[OF assms])
       (simp add: case_prod_beta path_cache_keys_path_cache_index)
  with assms show "K \<subseteq> dom (m_source_id_path_cache (snd (get_frag_ptr X f rid sid s)))"
    by (simp add: get_frag_ptr_def)
  have "K \<subseteq> dom (m_source_id_path_cache (snd (and_then (find_record_id X f rid s) (\<lambda>_ s1.
        and_then (add_record_level_info_to_caches_if_needed X f rid s1) (\<lambda>_ s2.
          let (rh_source_id, s3) = record_header_source_id_cache_index X rid s2;
              (p, s4) = path_cache_index rid rh_source_id s3
          in (get_dataset_raw_data f p, s4))))))"
    by (rule path_cache_keys_prelude[OF assms])
       (simp add: case_prod_beta path_cache_keys_path_cache_index path_cache_after_index)
  with assms show "K \<subseteq> dom (m_source_id_path_cache (snd (get_trh_ptr X f rid s)))"
    by (simp add: get_trh_ptr_def)
qed

lemma path_cache_keys_find_record_id:
  "K \<subseteq> dom (m_source_id_path_cache s) \<Longrightarrow>
   K \<subseteq> dom (m_source_id_path_cache (snd (find_record_id X f rid s)))"
  by (simp add: find_record_id_path_cache)

lemma path_cache_keys_paths:
  assumes "K \<subseteq> dom (m_source_id_path_cache s)"
  shows "K \<subseteq> dom (m_source_id_path_cache (snd (get_record_header_dataset_path X f rid s)))"
    and "K \<subseteq> dom (m_source_id_path_cache (snd (get_fragment_dataset_paths X f rid s)))"
proof -
  show "K \<subseteq> dom (m_source_id_path_cache (snd (get_record_header_dataset_path X f rid s)))"
    unfolding get_record_header_dataset_path_def
  proof (rule and_then_inv[where I = "\<lambda>s'. K \<subseteq> dom (m_source_id_path_cache s')"])
    show "K \<subseteq> dom (m_source_id_path_cache (snd (find_record_id X f rid s)))"
      using assms by (rule path_cache_keys_find_record_id)
  next
    fix a s1
    assume "find_record_id X f rid s = (Inr a, s1)"
    with path_cache_keys_find_record_id[OF assms, of X f rid]
    have k1: "K \<subseteq> dom (m_source_id_path_cache s1)" by simp
    have "K \<subseteq> dom (m_source_id_path_cache
        (snd (and_then (get_record_header_source_id X f rid s1) (\<lambda>source_id s2.
           let (p, s3) = path_cache_index rid source_id s2 in (Inr p, s3)))))"
    proof (rule and_then_inv[where I = "\<lambda>s'. K \<subseteq> dom (m_source_id_path_cache s')"])
      show "K \<subseteq> dom (m_source_id_path_cache (snd (get_record_header_source_id X f rid s1)))"
        using k1 by (rule path_cache_keys_getters)
    next
      fix sid s2
      assume "get_record_header_source_id X f rid s1 = (Inr sid, s2)"
      with path_cache_keys_getters(2)[OF k1, of X f rid]
      have "K \<subseteq> dom (m_source_id_path_cache s2)" by simp
      then show "K \<subseteq> dom (m_source_id_path_cache
          (snd (let (p, s3) = path_cache_index rid sid s2 in (Inr p, s3))))"
        by (simp add: case_prod_beta path_cache_keys_path_cache_index)
    qed
    with k1 show "K \<subseteq> dom (m_source_id_path_cache (snd (if get_version s1 \<le> 2
       then (Inr (getPath f @ get_record_header_path X (m_file_layout_ptr s1) (fst rid) (snd rid)), s1)
       else
         and_then (get_record_header_source_id X f rid s1) (\<lambda>source_id s2.
           let (p, s3) = path_cache_index rid source_id s2 in (Inr p, s3)))))"
      by simp
  qed
  show "K \<subseteq> dom (m_source_id_path_cache (snd (get_fragment_dataset_paths X f rid s)))"
    unfolding get_fragment_dataset_paths_def
  proof (rule and_then_inv[where I = "\<lambda>s'. K \<subseteq> dom (m_source_id_path_cache s')"])
    show "K \<subseteq> dom (m_source_id_path_cache (snd (find_record_id X f rid s)))"
      using assms by (rule path_cache_keys_find_record_id)
  next
    fix a s1
    assume "find_record_id X f rid s = (Inr a, s1)"
    with path_cache_keys_find_record_id[OF assms, of X f rid]
    have k1: "K \<subseteq> dom (m_source_id_path_cache s1)" by simp
    have "K \<subseteq> dom (m_source_id_path_cache
        (snd (and_then (get_fragment_source_ids X f rid s1) (\<lambda>source_id_list s2.
           let (frag_paths, s3) = frag_paths_loop rid (sorted_list_of_set source_id_list) [] s2
           in (Inr frag_paths, s3)))))"
    proof (rule and_then_inv[where I = "\<lambda>s'. K \<subseteq> dom (m_source_id_path_cache s')"])
      show "K \<subseteq> dom (m_source_id_path_cache (snd (get_fragment_source_ids X f rid s1)))"
        using k1 by (rule path_cache_keys_getters)
    next
      fix sids s2
      assume "get_fragment_source_ids X f rid s1 = (Inr sids, s2)"
      with path_cache_keys_getters(3)[OF k1, of X f rid]
      have "K \<subseteq> dom (m_source_id_path_cache s2)" by simp
      then show "K \<subseteq> dom (m_source_id_path_cache
          (snd (let (frag_paths, s3) = frag_paths_loop rid (sorted_list_of_set sids) [] s2
                in (Inr frag_paths, s3))))"
        by (simp add: case_prod_beta path_cache_keys_frag_paths_loop)
    qed
    with k1 show "K \<subseteq> dom (m_source_id_path_cache (snd (if get_version s1 \<le> 2
       then
         (case get_dataset_paths f
                 (getPath f @ get_record_number_string X (m_file_layout_ptr s1) (fst rid) (snd rid)) of
            Inl e \<Rightarrow> (Inl e, s1)
          | Inr paths \<Rightarrow>
              (Inr (filter (\<lambda>path.
                       str_find path (get_record_header_dataset_name X (m_file_layout_ptr s1)) = None)
                     paths),
               s1))
       else
         and_then (get_fragment_source_ids X f rid s1) (\<lambda>source_id_list s2.
           let (frag_paths, s3) = frag_paths_loop rid (sorted_list_of_set source_id_list) [] s2
           in (Inr frag_paths, s3)))))"
      by (simp split: sum.splits)
  qed
qed

lemma path_cache_keys_after_query:
  assumes "K \<subseteq> dom (m_source_id_path_cache s)"
  shows "K \<subseteq> dom (m_source_id_path_cache (after_query X f q s))"
proof -
  have enum: "m_source_id_path_cache (snd (get_all_record_ids X f s)) = m_source_id_path_cache s"
    by (subst get_all_record_ids_frame) simp
  show ?thesis
  proof (cases q)
    case Get_all_record_ids
    with assms enum show ?thesis by (simp add: after_query_def)
  next
    case Get_all_trigger_record_ids
    with assms enum typed_record_ids_cases(1)[of X f s] show ?thesis
      by (auto simp: after_query_def)
  next
    case Get_all_timeslice_ids
    with assms enum typed_record_ids_cases(2)[of X f s] show ?thesis
      by (auto simp: after_query_def)
  qed (simp_all add: after_query_def assms path_cache_keys_add_record_level_info
         path_cache_keys_getters path_cache_keys_typed path_cache_keys_paths get_tsh_ptr_eq)
qed

lemma path_cache_keys_after_queries:
  "K \<subseteq> dom (m_source_id_path_cache s) \<Longrightarrow>
   K \<subseteq> dom (m_source_id_path_cache (after_queries X f qs s))"
  unfolding after_queries_def
  by (induction qs arbitrary: s) (simp_all add: path_cache_keys_after_query)

lemma reachable_after_queries:
  "reachable X f s \<Longrightarrow> reachable X f (after_queries X f qs s)"
  unfolding after_queries_def
  by (induction qs arbitrary: s) (simp_all add: reachable.queried)

subsection \<open>Evaluation on the example files\<close>

lemma example_ctor:
  "HDF5RawDataFile_ctor example_collaborators (example_file v) = Inr (example_object v)"
  by (simp add: HDF5RawDataFile_ctor_def read_file_layout_def check_file_layout_def
        get_attribute_def example_collaborators_def example_file_def example_object_def
        example_params_def)

lemma example_record_ids:
  "get_all_record_ids example_collaborators (example_file w) (example_object v) =
     (Inr {(1, 0)}, (example_object v)\<lparr>m_all_record_ids_in_file := {(1, 0)}\<rparr>)"
  by (simp add: get_all_record_ids_def example_collaborators_def example_file_def example_object_def
        example_params_def getPath_def listObjectNames_def record_id_of_name_def stoi_def
        isspace_def isdigit_def decimal_value_def digit_value_def Let_def)

lemma example_reachable: "reachable example_collaborators (example_file v) (example_object v)"
  by (rule reachable.constructed) (rule example_ctor)

lemma example_group:
  "getGroup (example_file w)
     (get_record_number_string example_collaborators (m_file_layout_ptr (example_object v)) 1 0) =
   Some example_record_group"
  by (simp add: example_file_def example_collaborators_def example_object_def
        example_record_number_string_def example_params_def)

lemma example_populate:
  "fst (add_record_level_info_to_caches_if_needed example_collaborators (example_file w) (1, 0)
          (example_object v)) = Inr ()"
  by (rule add_record_level_info_group[where g = example_record_group]) (simp add: example_group)

lemma example_cache_inv: "cache_inv (example_object v)"
  using example_ctor by (rule cache_inv_ctor)

lemma example_add:
  "add_record_level_info_to_caches_if_needed example_collaborators (example_file v) (1, 0)
     ((example_object v)\<lparr>m_all_record_ids_in_file := {(1, 0)}\<rparr>) = (Inr (), example_populated v)"
proof -
  have "getGroup (example_file v)
     (get_record_number_string example_collaborators
        (m_file_layout_ptr ((example_object v)\<lparr>m_all_record_ids_in_file := {(1, 0)}\<rparr>))
        (fst (1, 0)) (snd (1, 0))) = Some example_record_group"
    using example_group[of v v] by simp
  from add_record_level_info_group[OF this] show ?thesis
    unfolding example_populated_def by (metis prod.collapse)
qed

lemma example_populated_caches:
  "m_source_id_cache (example_populated 2) (1, 0) = Some {}"
  "m_record_header_source_id_cache (example_populated 2) (1, 0) = Some (0, 0xFFFFFFFF)"
  "m_fragment_source_id_cache (example_populated 2) (1, 0) = Some {}"
  "m_source_id_cache (example_populated 3) (1, 0) = Some {(1, 7), (4, 0)}"
  "m_record_header_source_id_cache (example_populated 3) (1, 0) = Some (4, 0)"
  "m_fragment_source_id_cache (example_populated 3) (1, 0) = Some {(1, 7)}"
  "m_source_id_path_cache (example_populated 3) (1, 0) = Some example_path_map"
  "m_all_record_ids_in_file (example_populated v) = {(1, 0)}"
  "get_version (example_populated v) = v"
  by (auto simp: example_populated_def add_record_level_info_to_caches_if_needed_def Let_def
        case_prod_beta get_version_def example_object_def example_file_def
        example_collaborators_def example_record_number_string_def example_params_def
        example_path_map_def)

lemma example_populated_cache_inv: "cache_inv (example_populated v)"
  using cache_inv_add_record_level_info[of "(example_object v)\<lparr>m_all_record_ids_in_file := {(1, 0)}\<rparr>"
      example_collaborators "example_file v" "(1, 0)"] example_cache_inv[of v]
  by (simp add: example_populated_def)

lemma example_populated_record_ids:
  "get_all_record_ids X f (example_populated v) = (Inr {(1, 0)}, example_populated v)"
  by (simp add: get_all_record_ids_def example_populated_caches)

lemma example_populated_add:
  "add_record_level_info_to_caches_if_needed X f (1, 0) (example_populated v) =
     (Inr (), example_populated v)"
  using add_record_level_info_sentinel[OF example_add]
  by (rule add_record_level_info_populated)

lemma example_queries:
  "get_source_ids example_collaborators (example_file v) (1, 0) (example_object v) =
     (Inr (the (m_source_id_cache (example_populated v) (1, 0))), example_populated v)"
  "get_record_header_source_id example_collaborators (example_file v) (1, 0) (example_object v) =
     (Inr (the (m_record_header_source_id_cache (example_populated v) (1, 0))), example_populated v)"
  "get_fragment_source_ids example_collaborators (example_file v) (1, 0) (example_object v) =
     (Inr (the (m_fragment_source_id_cache (example_populated v) (1, 0))), example_populated v)"
  using example_cache_inv example_record_ids example_add
  by (simp_all add: get_source_ids_eval get_record_header_source_id_eval get_fragment_source_ids_eval)

lemma example_populated_queries:
  "get_source_ids X f (1, 0) (example_populated v) =
     (Inr (the (m_source_id_cache (example_populated v) (1, 0))), example_populated v)"
  "get_record_header_source_id X f (1, 0) (example_populated v) =
     (Inr (the (m_record_header_source_id_cache (example_populated v) (1, 0))), example_populated v)"
  "get_fragment_source_ids X f (1, 0) (example_populated v) =
     (Inr (the (m_fragment_source_id_cache (example_populated v) (1, 0))), example_populated v)"
  using example_populated_cache_inv example_populated_record_ids example_populated_add
  by (simp_all add: get_source_ids_eval get_record_header_source_id_eval get_fragment_source_ids_eval)

lemma scenario_names:
  "record_id_of_name ''TriggerRecord'' ''TriggerRecord00001'' = Some (Inr (1, 0))"
  "record_id_of_name ''TriggerRecord'' ''TriggerRecord00002.0'' = Some (Inr (2, 0))"
  "record_id_of_name ''TriggerRecord'' ''TriggerRecord00002.1'' = Some (Inr (2, 1))"
  "record_id_of_name ''TriggerRecord'' ''Metadata'' = None"
  by (simp_all add: record_id_of_name_def stoi_def isspace_def isdigit_def decimal_value_def
        digit_value_def Let_def)

lemma one_child_root:
  "getGroup (one_child_file name) (getPath (one_child_file name)) = Some [(name, Group [])]"
  by (simp add: one_child_file_def getPath_def)

lemma example_prefix:
  "''TriggerRecord'' = get_record_name_prefix example_collaborators (m_file_layout_ptr (example_object v))"
  by (simp add: example_collaborators_def example_object_def example_params_def)

lemma example_not_enumerated: "m_all_record_ids_in_file (example_object v) = {}"
  by (simp add: example_object_def)

lemma example_layout:
  "read_file_layout example_collaborators ((example_file v)\<lparr>attr_record_type := a\<rparr>) =
     Inr \<lparr>m_conf_params = example_params, m_version = v\<rparr>"
  by (simp add: read_file_layout_def get_attribute_def example_file_def example_collaborators_def)

section \<open>The claims\<close>

text \<open>
  C1, as amended. When the three queries return for a record, the fragment source ids are
  the source ids of the record without the record header's source id; so the header's id
  is not among them, and adding it gives the full set exactly when the header's source
  id is one of the record's source ids.
\<close>

theorem fragment_source_ids_are_full_minus_header:
  assumes "reachable X f s"
    and "get_source_ids X f rid s = (Inr full, s1)"
    and "get_record_header_source_id X f rid s1 = (Inr rh, s2)"
    and "get_fragment_source_ids X f rid s2 = (Inr frag, s3)"
  shows "frag = full - {rh} \<and> rh \<notin> frag \<and> (frag \<union> {rh} = full) = (rh \<in> full)"
proof -
  from assms(1) have inv: "cache_inv s" by (rule reachable_cache_inv)
  note r1 = get_source_ids_returns[OF inv assms(2)]
  note r2 = get_record_header_source_id_returns[OF r1(1) assms(3)]
  note r3 = get_fragment_source_ids_returns[OF r2(1) assms(4)]
  note c2 = same_caches_all_record_ids[OF r2(4)[OF r1(2)]]
  note c3 = same_caches_all_record_ids[OF r3(4)[OF r2(2)]]
  from r1(3) c2(1) c3(1) have full: "m_source_id_cache s3 rid = Some full" by simp
  from r2(3) c3(2) have rh: "m_record_header_source_id_cache s3 rid = Some rh" by simp
  from r3(1) have "fragment_sets_derived s3" by (simp add: cache_inv_def)
  with full rh r3(3) have "frag = full - {rh}"
    unfolding fragment_sets_derived_def by blast
  then show ?thesis by auto
qed

theorem fragment_source_ids_are_full_minus_header_witness:
  "reachable example_collaborators (example_file 3) (example_object 3) \<and>
   get_source_ids example_collaborators (example_file 3) (1, 0) (example_object 3) =
     (Inr {(1, 7), (4, 0)}, example_populated 3) \<and>
   get_record_header_source_id example_collaborators (example_file 3) (1, 0) (example_populated 3) =
     (Inr (4, 0), example_populated 3) \<and>
   get_fragment_source_ids example_collaborators (example_file 3) (1, 0) (example_populated 3) =
     (Inr {(1, 7)}, example_populated 3) \<and>
   {(1, 7)} = {(1, 7), (4, 0)} - {(4, 0) :: SourceID} \<and>
   {(1, 7)} \<union> {(4, 0)} = {(1, 7), (4, 0) :: SourceID}"
proof -
  have r: "reachable example_collaborators (example_file 3) (example_object 3)"
    by (rule example_reachable)
  have q1: "get_source_ids example_collaborators (example_file 3) (1, 0) (example_object 3) =
     (Inr {(1, 7), (4, 0)}, example_populated 3)"
    by (simp add: example_queries example_populated_caches)
  have q2: "get_record_header_source_id example_collaborators (example_file 3) (1, 0)
      (example_populated 3) = (Inr (4, 0), example_populated 3)"
    by (simp add: example_populated_queries example_populated_caches)
  have q3: "get_fragment_source_ids example_collaborators (example_file 3) (1, 0)
      (example_populated 3) = (Inr {(1, 7)}, example_populated 3)"
    by (simp add: example_populated_queries example_populated_caches)
  from fragment_source_ids_are_full_minus_header[OF r q1 q2 q3] r q1 q2 q3
  show ?thesis by auto
qed

text \<open>
  C1 as stated fails on a record whose source-id-to-path map is empty, as it is in the
  example file read as schema version 2: the record has no source ids, so the union with
  the header's source id is not the (empty) full set.
\<close>

theorem fragment_union_header_counterexample:
  "HDF5RawDataFile_ctor example_collaborators (example_file 2) = Inr (example_object 2) \<and>
   fst (get_all_record_ids example_collaborators (example_file 2) (example_object 2)) = Inr {(1, 0)} \<and>
   get_source_ids example_collaborators (example_file 2) (1, 0) (example_object 2) =
     (Inr {}, example_populated 2) \<and>
   get_record_header_source_id example_collaborators (example_file 2) (1, 0) (example_populated 2) =
     (Inr (0, 0xFFFFFFFF), example_populated 2) \<and>
   get_fragment_source_ids example_collaborators (example_file 2) (1, 0) (example_populated 2) =
     (Inr {}, example_populated 2) \<and>
   {} \<union> {(0, 0xFFFFFFFF)} \<noteq> ({} :: SourceID set)"
  by (simp add: example_ctor example_record_ids example_queries example_populated_queries
        example_populated_caches)

text \<open>
  C2. In every object a program can hold, a record id is a key of all eight per-record
  caches or of none, also after a query that threw. After a call of
  \<^verbatim>\<open>add_record_level_info_to_caches_if_needed\<close> that returned, the record id is a key of
  each of the eight, and it stays one through every later sequence of queries: no later
  read of a cache misses the key.
\<close>

theorem caches_populated_all_or_none:
  assumes "reachable X f s"
    and "s' = after_queries X f qs (snd (add_record_level_info_to_caches_if_needed X f rid s))"
  shows "caches_populated_together s \<and>
         caches_populated_together (snd (add_record_level_info_to_caches_if_needed X f rid s)) \<and>
         caches_populated_together s' \<and>
         (fst (add_record_level_info_to_caches_if_needed X f rid s) = Inr () \<longrightarrow>
            rid \<in> dom (m_source_id_cache s') \<and>
            rid \<in> dom (m_record_header_source_id_cache s') \<and>
            rid \<in> dom (m_fragment_source_id_cache s') \<and>
            rid \<in> dom (m_source_id_geo_id_cache s') \<and>
            rid \<in> dom (m_source_id_path_cache s') \<and>
            rid \<in> dom (m_subsystem_source_id_cache s') \<and>
            rid \<in> dom (m_fragment_type_source_id_cache s') \<and>
            rid \<in> dom (m_subdetector_source_id_cache s'))"
proof -
  let ?s1 = "snd (add_record_level_info_to_caches_if_needed X f rid s)"
  from assms(1) have inv: "cache_inv s" by (rule reachable_cache_inv)
  have "reachable X f (after_query X f (Add_record_level_info rid) s)"
    using assms(1) by (rule reachable.queried)
  then have r1: "reachable X f ?s1" by (simp add: after_query_def)
  then have inv1: "cache_inv ?s1" by (rule reachable_cache_inv)
  from r1 have "reachable X f s'" unfolding assms(2) by (rule reachable_after_queries)
  then have inv': "cache_inv s'" by (rule reachable_cache_inv)
  have "rid \<in> dom (m_source_id_cache s') \<and>
        rid \<in> dom (m_record_header_source_id_cache s') \<and>
        rid \<in> dom (m_fragment_source_id_cache s') \<and>
        rid \<in> dom (m_source_id_geo_id_cache s') \<and>
        rid \<in> dom (m_source_id_path_cache s') \<and>
        rid \<in> dom (m_subsystem_source_id_cache s') \<and>
        rid \<in> dom (m_fragment_type_source_id_cache s') \<and>
        rid \<in> dom (m_subdetector_source_id_cache s')"
    if "fst (add_record_level_info_to_caches_if_needed X f rid s) = Inr ()"
  proof -
    from that have "add_record_level_info_to_caches_if_needed X f rid s = (Inr (), ?s1)"
      by (metis prod.collapse)
    then have "m_source_id_path_cache ?s1 rid \<noteq> None"
      by (rule add_record_level_info_sentinel)
    then have "{rid} \<subseteq> dom (m_source_id_path_cache ?s1)" by (simp add: dom_def)
    then have "{rid} \<subseteq> dom (m_source_id_path_cache s')"
      unfolding assms(2) by (rule path_cache_keys_after_queries)
    then have pop: "m_source_id_path_cache s' rid \<noteq> None" by (simp add: dom_def)
    with cache_inv_populated[OF inv' pop] show ?thesis by (simp add: dom_def)
  qed
  with inv inv1 inv' show ?thesis by (simp add: cache_inv_def)
qed

theorem caches_populated_all_or_none_witness:
  "reachable example_collaborators (example_file 3) (example_object 3) \<and>
   fst (add_record_level_info_to_caches_if_needed example_collaborators (example_file 3) (1, 0)
          (example_object 3)) = Inr () \<and>
   (1, 0) \<in> dom (m_source_id_cache
      (after_queries example_collaborators (example_file 3)
         [Get_frag_ptr (1, 0) (2, 9), Get_geo_ids (7, 0)]
         (snd (add_record_level_info_to_caches_if_needed example_collaborators (example_file 3) (1, 0)
                (example_object 3))))) \<and>
   (1, 0) \<in> dom (m_subdetector_source_id_cache
      (after_queries example_collaborators (example_file 3)
         [Get_frag_ptr (1, 0) (2, 9), Get_geo_ids (7, 0)]
         (snd (add_record_level_info_to_caches_if_needed example_collaborators (example_file 3) (1, 0)
                (example_object 3)))))"
  using caches_populated_all_or_none[OF example_reachable[of 3] refl,
          where qs = "[Get_frag_ptr (1, 0) (2, 9), Get_geo_ids (7, 0)]" and rid = "(1, 0)"]
    example_populate[of 3 3] example_reachable
  by simp

text \<open>
  C3. Population is idempotent: a second call of
  \<^verbatim>\<open>add_record_level_info_to_caches_if_needed\<close> for the same record id returns what the
  first call returned and leaves the object, and so every per-record cache, exactly as
  the first call left it. A call for a record id that is already a key of the
  source-id-to-path cache returns at once and changes nothing. This holds for every
  record id, enumerated or not.
\<close>

theorem add_record_level_info_idempotent:
  "add_record_level_info_to_caches_if_needed X f rid
     (snd (add_record_level_info_to_caches_if_needed X f rid s)) =
   add_record_level_info_to_caches_if_needed X f rid s \<and>
   (m_source_id_path_cache s rid \<noteq> None \<longrightarrow>
      add_record_level_info_to_caches_if_needed X f rid s = (Inr (), s)) \<and>
   (fst (add_record_level_info_to_caches_if_needed X f rid s) = Inr () \<longrightarrow>
      m_source_id_path_cache (snd (add_record_level_info_to_caches_if_needed X f rid s)) rid \<noteq> None)"
proof (intro conjI impI)
  show "add_record_level_info_to_caches_if_needed X f rid
     (snd (add_record_level_info_to_caches_if_needed X f rid s)) =
   add_record_level_info_to_caches_if_needed X f rid s"
    by (rule add_record_level_info_twice)
next
  assume "m_source_id_path_cache s rid \<noteq> None"
  then show "add_record_level_info_to_caches_if_needed X f rid s = (Inr (), s)"
    by (rule add_record_level_info_populated)
next
  assume "fst (add_record_level_info_to_caches_if_needed X f rid s) = Inr ()"
  then have "add_record_level_info_to_caches_if_needed X f rid s =
      (Inr (), snd (add_record_level_info_to_caches_if_needed X f rid s))"
    by (metis prod.collapse)
  then show "m_source_id_path_cache (snd (add_record_level_info_to_caches_if_needed X f rid s)) rid \<noteq> None"
    by (rule add_record_level_info_sentinel)
qed

theorem add_record_level_info_idempotent_witness:
  "fst (add_record_level_info_to_caches_if_needed example_collaborators (example_file 3) (1, 0)
          (example_object 3)) = Inr () \<and>
   m_source_id_path_cache
     (snd (add_record_level_info_to_caches_if_needed example_collaborators (example_file 3) (1, 0)
          (example_object 3))) (1, 0) \<noteq> None \<and>
   add_record_level_info_to_caches_if_needed example_collaborators (example_file 3) (1, 0)
     (snd (add_record_level_info_to_caches_if_needed example_collaborators (example_file 3) (1, 0)
          (example_object 3))) =
   (Inr (), snd (add_record_level_info_to_caches_if_needed example_collaborators (example_file 3) (1, 0)
          (example_object 3)))"
  using add_record_level_info_idempotent[of example_collaborators "example_file 3" "(1, 0)" "example_object 3"]
    add_record_level_info_idempotent[of example_collaborators "example_file 3" "(1, 0)"
      "snd (add_record_level_info_to_caches_if_needed example_collaborators (example_file 3) (1, 0)
          (example_object 3))"]
    example_populate[of 3 3]
  by simp

text \<open>
  C4. With the record-name prefix \<^verbatim>\<open>TriggerRecord\<close> and a root whose children are
  \<^verbatim>\<open>TriggerRecord00001\<close>, \<^verbatim>\<open>TriggerRecord00002.0\<close>, \<^verbatim>\<open>TriggerRecord00002.1\<close> and
  \<^verbatim>\<open>Metadata\<close>, listed in any order, the first call of \<^verbatim>\<open>get_all_record_ids\<close> returns
  and memoizes exactly the set \<open>{(1,0), (2,0), (2,1)}\<close>: the name without a dot gets
  sequence number 0, the part after a dot is the sequence number, and \<^verbatim>\<open>Metadata\<close> is
  skipped.
\<close>

theorem get_all_record_ids_scenario:
  assumes "get_record_name_prefix X (m_file_layout_ptr s) = ''TriggerRecord''"
    and "getGroup f (getPath f) = Some root"
    and "set (listObjectNames root) =
           {''TriggerRecord00001'', ''TriggerRecord00002.0'', ''TriggerRecord00002.1'', ''Metadata''}"
    and "m_all_record_ids_in_file s = {}"
  shows "get_all_record_ids X f s =
           (Inr {(1, 0), (2, 0), (2, 1)}, s\<lparr>m_all_record_ids_in_file := {(1, 0), (2, 0), (2, 1)}\<rparr>) \<and>
         record_id_of_name ''TriggerRecord'' ''TriggerRecord00001'' = Some (Inr (1, 0)) \<and>
         record_id_of_name ''TriggerRecord'' ''TriggerRecord00002.0'' = Some (Inr (2, 0)) \<and>
         record_id_of_name ''TriggerRecord'' ''TriggerRecord00002.1'' = Some (Inr (2, 1)) \<and>
         record_id_of_name ''TriggerRecord'' ''Metadata'' = None"
proof -
  let ?names = "listObjectNames root"
  have parse: "\<forall>n \<in> set ?names. \<forall>e. record_id_of_name ''TriggerRecord'' n \<noteq> Some (Inl e)"
    unfolding assms(3) by (simp add: scenario_names)
  have "{rid. \<exists>n \<in> set ?names. record_id_of_name ''TriggerRecord'' n = Some (Inr rid)} =
          {(1, 0), (2, 0), (2, 1)}"
    unfolding assms(3) by (auto simp: scenario_names)
  with record_ids_loop_all_parse[OF parse, of "{}"]
  have "record_ids_loop ''TriggerRecord'' ?names {} = (Inr (), {(1, 0), (2, 0), (2, 1)})"
    by simp
  with get_all_record_ids_scan[OF assms(4) assms(2), of X] assms(1) show ?thesis
    by (simp add: scenario_names)
qed

theorem get_all_record_ids_scenario_witness:
  "get_record_name_prefix example_collaborators (m_file_layout_ptr (example_object 3)) =
     ''TriggerRecord'' \<and>
   listObjectNames (the (getGroup scenario_file (getPath scenario_file))) =
     [''TriggerRecord00001'', ''TriggerRecord00002.0'', ''TriggerRecord00002.1'', ''Metadata''] \<and>
   m_all_record_ids_in_file (example_object 3) = {} \<and>
   get_all_record_ids example_collaborators scenario_file (example_object 3) =
     (Inr {(1, 0), (2, 0), (2, 1)},
      (example_object 3)\<lparr>m_all_record_ids_in_file := {(1, 0), (2, 0), (2, 1)}\<rparr>)"
proof -
  have p: "get_record_name_prefix example_collaborators (m_file_layout_ptr (example_object 3)) =
     ''TriggerRecord''"
    by (simp add: example_collaborators_def example_object_def example_params_def)
  have g: "getGroup scenario_file (getPath scenario_file) =
     Some [(''TriggerRecord00001'', Group []), (''TriggerRecord00002.0'', Group []),
           (''TriggerRecord00002.1'', Group []), (''Metadata'', Group [])]"
    by (simp add: scenario_file_def getPath_def)
  have n: "set (listObjectNames [(''TriggerRecord00001'', Group []), (''TriggerRecord00002.0'', Group []),
           (''TriggerRecord00002.1'', Group []), (''Metadata'', Group [])]) =
      {''TriggerRecord00001'', ''TriggerRecord00002.0'', ''TriggerRecord00002.1'', ''Metadata''}"
    by (simp add: listObjectNames_def)
  have e: "m_all_record_ids_in_file (example_object 3) = {}"
    by (simp add: example_object_def)
  from get_all_record_ids_scenario[OF p g n e] p g e show ?thesis
    by (simp add: listObjectNames_def)
qed

text \<open>
  C5. A per-record query on a record id that the file does not hold is meant to throw the
  record-not-found error before it touches a cache. The record check of the queries
  compares an iterator of one copy of the enumerated set with the end of another copy,
  so it never fires. The example file holds
  the record \<open>(1, 0)\<close> only. Asked for the record \<open>(99, 0)\<close>, the object of schema version 2
  returns a record header path, and the object of schema version 3 goes on to populate
  the caches and throws the error of the missing group; neither throws the
  record-not-found error.
\<close>

theorem record_check_misses_absent_record:
  "get_all_record_ids example_collaborators (example_file 2) (example_object 2) =
     (Inr {(1, 0)}, (example_object 2)\<lparr>m_all_record_ids_in_file := {(1, 0)}\<rparr>) \<and>
   (99, 0) \<notin> {(1, 0) :: record_id_t} \<and>
   get_record_header_dataset_path example_collaborators (example_file 2) (99, 0) (example_object 2) =
     (Inr ''/TriggerRecord00099/TriggerRecordHeader'',
      (example_object 2)\<lparr>m_all_record_ids_in_file := {(1, 0)}\<rparr>) \<and>
   get_fragment_dataset_paths example_collaborators (example_file 3) (99, 0) (example_object 3) =
     (Inl (InvalidHDF5Group ''TriggerRecord00099''),
      (example_object 3)\<lparr>m_all_record_ids_in_file := {(1, 0)}\<rparr>) \<and>
   run_query example_collaborators (example_file 3) (Get_geo_ids (99, 0)) (example_object 3) =
     (Inl (InvalidHDF5Group ''TriggerRecord00099''),
      (example_object 3)\<lparr>m_all_record_ids_in_file := {(1, 0)}\<rparr>) \<and>
   fst (run_query example_collaborators (example_file 3) (Get_source_ids (99, 0)) (example_object 3)) \<noteq>
     Inl (RecordIDNotFound 99 0)"
proof (intro conjI)
  show "get_all_record_ids example_collaborators (example_file 2) (example_object 2) =
     (Inr {(1, 0)}, (example_object 2)\<lparr>m_all_record_ids_in_file := {(1, 0)}\<rparr>)"
    by (rule example_record_ids)
  show "(99, 0) \<notin> {(1, 0) :: record_id_t}" by simp
  show "get_record_header_dataset_path example_collaborators (example_file 2) (99, 0) (example_object 2) =
     (Inr ''/TriggerRecord00099/TriggerRecordHeader'',
      (example_object 2)\<lparr>m_all_record_ids_in_file := {(1, 0)}\<rparr>)"
    unfolding get_record_header_dataset_path_def prelude_found[OF example_record_ids]
    by (simp add: get_version_def example_object_def example_file_def getPath_def
          example_collaborators_def example_record_number_string_def example_params_def)
  have absent: "add_record_level_info_to_caches_if_needed example_collaborators (example_file 3) (99, 0)
      ((example_object 3)\<lparr>m_all_record_ids_in_file := {(1, 0)}\<rparr>) =
    (Inl (InvalidHDF5Group ''TriggerRecord00099''),
     (example_object 3)\<lparr>m_all_record_ids_in_file := {(1, 0)}\<rparr>)"
    by (simp add: add_record_level_info_to_caches_if_needed_def example_object_def example_file_def
          example_collaborators_def example_record_number_string_def example_params_def)
  show "get_fragment_dataset_paths example_collaborators (example_file 3) (99, 0) (example_object 3) =
     (Inl (InvalidHDF5Group ''TriggerRecord00099''),
      (example_object 3)\<lparr>m_all_record_ids_in_file := {(1, 0)}\<rparr>)"
    unfolding get_fragment_dataset_paths_def prelude_found[OF example_record_ids]
      get_fragment_source_ids_def
      prelude_found[OF get_all_record_ids_again[OF example_record_ids]]
    by (simp add: absent get_version_def) (simp add: example_object_def)
  show "run_query example_collaborators (example_file 3) (Get_geo_ids (99, 0)) (example_object 3) =
     (Inl (InvalidHDF5Group ''TriggerRecord00099''),
      (example_object 3)\<lparr>m_all_record_ids_in_file := {(1, 0)}\<rparr>)"
    unfolding run_query.simps get_geo_ids_def prelude_found[OF example_record_ids]
    by (simp add: absent)
  show "fst (run_query example_collaborators (example_file 3) (Get_source_ids (99, 0))
              (example_object 3)) \<noteq> Inl (RecordIDNotFound 99 0)"
    by (rule record_check_never_fires[OF example_record_ids, where ss = 1 and ft = 1 and sd = 1
          and sid = "(1, 7)" and g = 0])
       (simp add: per_record_queries_def)
qed

text \<open>
  C6. \<^verbatim>\<open>get_frag_ptr(rid, source_id)\<close> on an object of schema version below 2 throws the
  incompatible-version error at once, whatever the record id, and leaves the object
  untouched (the enumeration has not run). The call throws that error for versions below
  2 only. On a version of at least 2, with an enumerated record id whose population
  returns, a source id that the record's path map sends to a path, and a dataset at that
  path, the call returns the bytes of that dataset.
\<close>

theorem get_frag_ptr_version_gate:
  "(get_version s < 2 \<longrightarrow>
      get_frag_ptr X f rid source_id s =
        (Inl (IncompatibleFileLayoutVersion (get_version s) 2 MAX_FILELAYOUT_VERSION), s)) \<and>
   (\<exists>a b c. fst (get_frag_ptr X f rid source_id s) = Inl (IncompatibleFileLayoutVersion a b c)) =
     (get_version s < 2) \<and>
   (\<not> get_version s < 2 \<and> get_all_record_ids X f s = (Inr ids, s1) \<and> rid \<in> ids \<and>
    add_record_level_info_to_caches_if_needed X f rid s1 = (Inr (), s2) \<and>
    m_source_id_path_cache s2 rid = Some pm \<and> map_of pm source_id = Some p \<and>
    getGroup f ''/'' = Some root \<and> getDataSet f p = Some membuffer \<longrightarrow>
      get_frag_ptr X f rid source_id s = (Inr membuffer, s2))"
proof (intro conjI impI)
  assume "get_version s < 2"
  then show "get_frag_ptr X f rid source_id s =
        (Inl (IncompatibleFileLayoutVersion (get_version s) 2 MAX_FILELAYOUT_VERSION), s)"
    by (simp add: get_frag_ptr_def)
next
  show "(\<exists>a b c. fst (get_frag_ptr X f rid source_id s) = Inl (IncompatibleFileLayoutVersion a b c)) =
     (get_version s < 2)"
  proof (cases "get_version s < 2")
    case True
    then show ?thesis by (simp add: get_frag_ptr_def)
  next
    case False
    with get_frag_ptr_gate_only[OF False, of X f rid source_id] show ?thesis by simp
  qed
next
  assume "\<not> get_version s < 2 \<and> get_all_record_ids X f s = (Inr ids, s1) \<and> rid \<in> ids \<and>
    add_record_level_info_to_caches_if_needed X f rid s1 = (Inr (), s2) \<and>
    m_source_id_path_cache s2 rid = Some pm \<and> map_of pm source_id = Some p \<and>
    getGroup f ''/'' = Some root \<and> getDataSet f p = Some membuffer"
  then show "get_frag_ptr X f rid source_id s = (Inr membuffer, s2)"
    by (auto intro: get_frag_ptr_returns)
qed

theorem get_frag_ptr_version_gate_witness:
  "get_version (example_object 1) < 2 \<and>
   get_frag_ptr example_collaborators (example_file 1) (99, 0) (1, 7) (example_object 1) =
     (Inl (IncompatibleFileLayoutVersion 1 2 4294967295), example_object 1) \<and>
   \<not> get_version (example_object 3) < 2 \<and>
   get_all_record_ids example_collaborators (example_file 3) (example_object 3) =
     (Inr {(1, 0)}, (example_object 3)\<lparr>m_all_record_ids_in_file := {(1, 0)}\<rparr>) \<and>
   add_record_level_info_to_caches_if_needed example_collaborators (example_file 3) (1, 0)
     ((example_object 3)\<lparr>m_all_record_ids_in_file := {(1, 0)}\<rparr>) = (Inr (), example_populated 3) \<and>
   m_source_id_path_cache (example_populated 3) (1, 0) = Some example_path_map \<and>
   map_of example_path_map (1, 7) = Some ''/TriggerRecord00001/RawData/Detector_Readout_0x00000007'' \<and>
   getDataSet (example_file 3) ''/TriggerRecord00001/RawData/Detector_Readout_0x00000007'' =
     Some [1, 2, 3] \<and>
   get_frag_ptr example_collaborators (example_file 3) (1, 0) (1, 7) (example_object 3) =
     (Inr [1, 2, 3], example_populated 3)"
proof -
  have v: "get_version (example_object v) = v" for v
    by (simp add: get_version_def example_object_def)
  have m: "map_of example_path_map (1, 7) =
      Some ''/TriggerRecord00001/RawData/Detector_Readout_0x00000007''"
    by (simp add: example_path_map_def)
  have d: "getDataSet (example_file 3) ''/TriggerRecord00001/RawData/Detector_Readout_0x00000007'' =
     Some [1, 2, 3]"
    by (simp add: example_file_def)
  have g: "getGroup (example_file 3) ''/'' = Some [(''TriggerRecord00001'', Group example_record_group)]"
    by (simp add: example_file_def)
  note t1 = get_frag_ptr_version_gate[where s = "example_object 1" and X = example_collaborators
      and f = "example_file 1" and rid = "(99, 0)" and source_id = "(1, 7)"]
  note t3 = get_frag_ptr_version_gate[where s = "example_object 3" and X = example_collaborators
      and f = "example_file 3" and rid = "(1, 0)" and source_id = "(1, 7)" and ids = "{(1, 0)}"
      and ?s1.0 = "(example_object 3)\<lparr>m_all_record_ids_in_file := {(1, 0)}\<rparr>"
      and ?s2.0 = "example_populated 3" and pm = example_path_map
      and p = "''/TriggerRecord00001/RawData/Detector_Readout_0x00000007''"
      and root = "[(''TriggerRecord00001'', Group example_record_group)]" and membuffer = "[1, 2, 3]"]
  from t1 t3 m d g show ?thesis
    by (simp add: v example_record_ids example_add example_populated_caches
          MAX_FILELAYOUT_VERSION_def)
qed

text \<open>
  C7, as amended. Once the layout is read, construction fails with the schema-mismatch
  error exactly when the schema version is at least 2 and the file has a
  \<^verbatim>\<open>record_type\<close> attribute that differs from the layout's record-name prefix. For a
  schema version below 2 the check is skipped: construction succeeds, and the record type
  is the attribute or, when the file has none, the layout's prefix.
\<close>

theorem schema_mismatch_iff:
  assumes "read_file_layout X f = Inr layout"
  shows "(HDF5RawDataFile_ctor X f = Inl (BadRecordType rt pfx)) =
           (\<not> m_version layout < 2 \<and> attr_record_type f = Some rt \<and>
            rt \<noteq> get_record_name_prefix X layout \<and> pfx = get_record_name_prefix X layout) \<and>
         (m_version layout < 2 \<longrightarrow>
            check_file_layout X f layout = Inr () \<and>
            (\<exists>s. HDF5RawDataFile_ctor X f = Inr s \<and>
                 m_record_type s =
                   (case attr_record_type f of
                      None \<Rightarrow> get_record_name_prefix X layout
                    | Some record_type \<Rightarrow> record_type)))"
  using assms
  by (auto simp: HDF5RawDataFile_ctor_def check_file_layout_def get_attribute_def Let_def
        split: option.splits sum.splits)

theorem schema_mismatch_iff_witness:
  "read_file_layout example_collaborators ((example_file 3)\<lparr>attr_record_type := Some ''TimeSlice''\<rparr>) =
     Inr \<lparr>m_conf_params = example_params, m_version = 3\<rparr> \<and>
   HDF5RawDataFile_ctor example_collaborators
     ((example_file 3)\<lparr>attr_record_type := Some ''TimeSlice''\<rparr>) =
     Inl (BadRecordType ''TimeSlice'' ''TriggerRecord'') \<and>
   attr_record_type ((example_file 1)\<lparr>attr_record_type := None\<rparr>) = None \<and>
   check_file_layout example_collaborators ((example_file 1)\<lparr>attr_record_type := None\<rparr>)
     \<lparr>m_conf_params = example_params, m_version = 1\<rparr> = Inr () \<and>
   HDF5RawDataFile_ctor example_collaborators ((example_file 1)\<lparr>attr_record_type := None\<rparr>) =
     Inr (example_object 1)"
  using schema_mismatch_iff[OF example_layout[where v = 3 and a = "Some ''TimeSlice''"],
          where rt = "''TimeSlice''" and pfx = "''TriggerRecord''"]
    schema_mismatch_iff[OF example_layout[where v = 1 and a = None]]
  by (simp add: example_layout)
     (simp add: example_collaborators_def example_params_def example_file_def
        HDF5RawDataFile_ctor_def example_layout[unfolded example_file_def example_collaborators_def]
        check_file_layout_def example_object_def read_file_layout_def get_attribute_def)

text \<open>
  C7 as stated fails on a file of schema version 2 without the \<^verbatim>\<open>record_type\<close>
  attribute: the layout is read, the record type would default to the prefix, but the
  check reads the attribute itself and construction fails there.
\<close>

theorem absent_record_type_counterexample:
  "attr_record_type ((example_file 2)\<lparr>attr_record_type := None\<rparr>) = None \<and>
   read_file_layout example_collaborators ((example_file 2)\<lparr>attr_record_type := None\<rparr>) =
     Inr \<lparr>m_conf_params = example_params, m_version = 2\<rparr> \<and>
   check_file_layout example_collaborators ((example_file 2)\<lparr>attr_record_type := None\<rparr>)
     \<lparr>m_conf_params = example_params, m_version = 2\<rparr> = Inl (InvalidHDF5Attribute ''record_type'') \<and>
   HDF5RawDataFile_ctor example_collaborators ((example_file 2)\<lparr>attr_record_type := None\<rparr>) =
     Inl (InvalidHDF5Attribute ''record_type'')"
  by (simp add: example_layout HDF5RawDataFile_ctor_def check_file_layout_def get_attribute_def)

text \<open>
  C8, as amended. \<^verbatim>\<open>read_file_layout\<close> returns unless the \<^verbatim>\<open>filelayout_params\<close>
  attribute is present and the parser rejects it; then the parser's exception leaves the
  function. Without the \<^verbatim>\<open>filelayout_params\<close> attribute the descriptor has schema
  version 0 and the default parameters; with parameters that parse it has these
  parameters and the stored version, or version 0 when \<^verbatim>\<open>filelayout_version\<close> is
  absent.
\<close>

theorem read_file_layout_tolerates_absence:
  "(attr_filelayout_params f = None \<longrightarrow>
      read_file_layout X f = Inr \<lparr>m_conf_params = default_FileLayoutParams X, m_version = 0\<rparr>) \<and>
   (attr_filelayout_params f = Some fl_str \<and> json_parse_from_json X fl_str = Some fl_params \<longrightarrow>
      read_file_layout X f =
        Inr \<lparr>m_conf_params = fl_params,
             m_version = (case attr_filelayout_version f of None \<Rightarrow> 0 | Some version \<Rightarrow> version)\<rparr>) \<and>
   (read_file_layout X f = Inl e) =
     (e = JsonException \<and>
      (\<exists>str. attr_filelayout_params f = Some str \<and> json_parse_from_json X str = None))"
  by (auto simp: read_file_layout_def get_attribute_def split: option.splits)

theorem read_file_layout_tolerates_absence_witness:
  "attr_filelayout_params ((example_file 3)\<lparr>attr_filelayout_params := None\<rparr>) = None \<and>
   read_file_layout example_collaborators ((example_file 3)\<lparr>attr_filelayout_params := None\<rparr>) =
     Inr \<lparr>m_conf_params = example_params, m_version = 0\<rparr> \<and>
   attr_filelayout_params (example_file 3) = Some ''{}'' \<and>
   json_parse_from_json example_collaborators ''{}'' = Some example_params \<and>
   read_file_layout example_collaborators (example_file 3) =
     Inr \<lparr>m_conf_params = example_params, m_version = 3\<rparr> \<and>
   read_file_layout example_collaborators ((example_file 3)\<lparr>attr_filelayout_version := None\<rparr>) =
     Inr \<lparr>m_conf_params = example_params, m_version = 0\<rparr>"
  using read_file_layout_tolerates_absence[of "(example_file 3)\<lparr>attr_filelayout_params := None\<rparr>"
          example_collaborators "''{}''" example_params]
    read_file_layout_tolerates_absence[of "example_file 3" example_collaborators "''{}''" example_params]
    read_file_layout_tolerates_absence[of "(example_file 3)\<lparr>attr_filelayout_version := None\<rparr>"
          example_collaborators "''{}''" example_params]
  by (simp add: example_file_def example_collaborators_def)

text \<open>
  C8 as stated fails on a file whose \<^verbatim>\<open>filelayout_params\<close> attribute is not JSON: the
  handler does not catch the parser's exception, and no descriptor is produced.
\<close>

theorem read_file_layout_unparseable_counterexample:
  "read_file_layout example_collaborators
     ((example_file 3)\<lparr>attr_filelayout_params := Some ''not json''\<rparr>) = Inl JsonException"
  by (simp add: read_file_layout_def get_attribute_def example_file_def example_collaborators_def)

text \<open>
  C9. The file-level geometric map is written by the constructor only. After any
  sequence of queries on the constructed object it is the map the constructor fetched;
  population leaves it as it is; and the geo-id map that population stores for a record
  is the handler's extension of a copy of the file-level map.
\<close>

theorem file_level_geo_id_map_unchanged:
  assumes "HDF5RawDataFile_ctor X f = Inr s0"
  shows "m_file_level_source_id_geo_id_map (after_queries X f qs s0) =
           fetch_file_level_geo_id_info X (m_version (m_file_layout_ptr s0)) f [] \<and>
         m_file_level_source_id_geo_id_map
           (snd (add_record_level_info_to_caches_if_needed X f rid (after_queries X f qs s0))) =
           m_file_level_source_id_geo_id_map s0 \<and>
         (m_source_id_path_cache (after_queries X f qs s0) rid = None \<longrightarrow>
          getGroup f (get_record_number_string X (m_file_layout_ptr s0) (fst rid) (snd rid)) = Some g \<longrightarrow>
          m_source_id_geo_id_cache
            (snd (add_record_level_info_to_caches_if_needed X f rid (after_queries X f qs s0))) rid =
            Some (fetch_record_level_geo_id_info X (m_version (m_file_layout_ptr s0)) g
                    (m_file_level_source_id_geo_id_map s0)))"
proof -
  let ?s = "after_queries X f qs s0"
  from assms have "object_inv (immutable_part s0) s0" by (rule object_inv_ctor)
  then have inv: "object_inv (immutable_part s0) ?s" by (rule object_inv_after_queries)
  then have same: "immutable_part ?s = immutable_part s0" by (simp add: object_inv_def)
  then have map: "m_file_level_source_id_geo_id_map ?s = m_file_level_source_id_geo_id_map s0"
    and layout: "m_file_layout_ptr ?s = m_file_layout_ptr s0"
    by (simp_all add: immutable_part_def)
  from immutable_part_add_record_level_info[of X f rid ?s] same
  have "m_file_level_source_id_geo_id_map (snd (add_record_level_info_to_caches_if_needed X f rid ?s)) =
          m_file_level_source_id_geo_id_map s0"
    by (simp add: immutable_part_def)
  moreover have "m_source_id_geo_id_cache
            (snd (add_record_level_info_to_caches_if_needed X f rid ?s)) rid =
            Some (fetch_record_level_geo_id_info X (m_version (m_file_layout_ptr s0)) g
                    (m_file_level_source_id_geo_id_map s0))"
    if "m_source_id_path_cache ?s rid = None"
      and "getGroup f (get_record_number_string X (m_file_layout_ptr s0) (fst rid) (snd rid)) = Some g"
    using add_record_level_info_geo_map[of ?s rid f X g] that map layout
    by (simp add: get_version_def)
  ultimately show ?thesis using map immutable_part_ctor[OF assms] by simp
qed

theorem file_level_geo_id_map_unchanged_witness:
  "HDF5RawDataFile_ctor example_collaborators (example_file 3) = Inr (example_object 3) \<and>
   m_file_level_source_id_geo_id_map
     (after_queries example_collaborators (example_file 3)
        [Get_geo_ids (1, 0), Get_geo_ids_for_source_id (1, 0) (1, 7)] (example_object 3)) = [] \<and>
   m_source_id_path_cache
     (after_queries example_collaborators (example_file 3) [] (example_object 3)) (1, 0) = None \<and>
   m_source_id_geo_id_cache
     (snd (add_record_level_info_to_caches_if_needed example_collaborators (example_file 3) (1, 0)
             (after_queries example_collaborators (example_file 3) [] (example_object 3)))) (1, 0) =
     Some []"
  using file_level_geo_id_map_unchanged[OF example_ctor[of 3],
          of "[Get_geo_ids (1, 0), Get_geo_ids_for_source_id (1, 0) (1, 7)]" "(1, 0)" example_record_group]
    file_level_geo_id_map_unchanged[OF example_ctor[of 3], of "[]" "(1, 0)" example_record_group]
    example_group[of 3 3]
  by (simp add: example_ctor after_queries_def)
     (simp add: example_object_def example_collaborators_def)

text \<open>
  C10. \<^verbatim>\<open>get_all_record_ids\<close> reads the numbers of a child name with \<^verbatim>\<open>std::stoi\<close>. Let
  the enumeration run (nothing memoized yet) on a root that lists \<open>name\<close>. If \<open>name\<close> is
  the record prefix followed by decimal digits of value \<open>2^31\<close> or more (whether or not
  it fits 64 unsigned bits), or the prefix followed by no number at all, the
  enumeration throws (\<^verbatim>\<open>std::out_of_range\<close> and \<^verbatim>\<open>std::invalid_argument\<close> are what the
  name raises) and returns no record id. A name is skipped exactly when the prefix
  occurs nowhere in it: a name that contains the prefix anywhere is parsed, so it either
  contributes a record id or makes the enumeration throw.
\<close>

theorem get_all_record_ids_uses_stoi:
  assumes "m_all_record_ids_in_file s = {}" and "getGroup f (getPath f) = Some root"
    and "name \<in> set (listObjectNames root)"
    and "pfx = get_record_name_prefix X (m_file_layout_ptr s)"
  shows "(name = pfx @ ds \<and> ds \<noteq> [] \<and> (\<forall>c \<in> set ds. isdigit c) \<and> 2 ^ 31 \<le> decimal_value ds \<longrightarrow>
            record_id_of_name pfx name = Some (Inl StoiOutOfRange) \<and>
            (\<exists>e s'. get_all_record_ids X f s = (Inl e, s'))) \<and>
         (name = pfx @ rest \<and>
            (rest = [] \<or> \<not> (isdigit (hd rest) \<or> isspace (hd rest) \<or> hd rest = CHR ''-'' \<or>
                             hd rest = CHR ''+'')) \<longrightarrow>
            record_id_of_name pfx name = Some (Inl StoiInvalidArgument) \<and>
            (\<exists>e s'. get_all_record_ids X f s = (Inl e, s'))) \<and>
         (record_id_of_name pfx name = None) = (\<not> sublist pfx name) \<and>
         (sublist pfx name \<longrightarrow>
            (\<exists>e s'. get_all_record_ids X f s = (Inl e, s')) \<or>
            (\<exists>rid ids s'. get_all_record_ids X f s = (Inr ids, s') \<and>
               record_id_of_name pfx name = Some (Inr rid) \<and> rid \<in> ids)) \<and>
         (listObjectNames root = [name] \<longrightarrow>
            get_all_record_ids X f s =
              (case record_id_of_name pfx name of
                 None \<Rightarrow> (Inr {}, s)
               | Some (Inl e) \<Rightarrow> (Inl e, s)
               | Some (Inr rid) \<Rightarrow> (Inr {rid}, s\<lparr>m_all_record_ids_in_file := {rid}\<rparr>)))"
proof (intro conjI impI)
  assume a: "name = pfx @ ds \<and> ds \<noteq> [] \<and> (\<forall>c \<in> set ds. isdigit c) \<and> 2 ^ 31 \<le> decimal_value ds"
  then show oor: "record_id_of_name pfx name = Some (Inl StoiOutOfRange)"
    by (simp add: record_id_of_name_out_of_range)
  with assms show "\<exists>e s'. get_all_record_ids X f s = (Inl e, s')"
    by (auto intro: get_all_record_ids_throws)
next
  assume a: "name = pfx @ rest \<and>
            (rest = [] \<or> \<not> (isdigit (hd rest) \<or> isspace (hd rest) \<or> hd rest = CHR ''-'' \<or>
                             hd rest = CHR ''+''))"
  then show inv: "record_id_of_name pfx name = Some (Inl StoiInvalidArgument)"
    using record_id_of_name_no_number[of rest pfx] by blast
  with assms show "\<exists>e s'. get_all_record_ids X f s = (Inl e, s')"
    by (auto intro: get_all_record_ids_throws)
next
  show "(record_id_of_name pfx name = None) = (\<not> sublist pfx name)"
    by (rule record_id_of_name_skips_iff)
next
  assume "sublist pfx name"
  with assms show "(\<exists>e s'. get_all_record_ids X f s = (Inl e, s')) \<or>
            (\<exists>rid ids s'. get_all_record_ids X f s = (Inr ids, s') \<and>
               record_id_of_name pfx name = Some (Inr rid) \<and> rid \<in> ids)"
    using get_all_record_ids_parsed[of s f root name X] by simp
next
  assume "listObjectNames root = [name]"
  with assms show "get_all_record_ids X f s =
              (case record_id_of_name pfx name of
                 None \<Rightarrow> (Inr {}, s)
               | Some (Inl e) \<Rightarrow> (Inl e, s)
               | Some (Inr rid) \<Rightarrow> (Inr {rid}, s\<lparr>m_all_record_ids_in_file := {rid}\<rparr>))"
    using get_all_record_ids_one_child[of s f root name X] by simp
qed

theorem get_all_record_ids_uses_stoi_witness:
  "m_all_record_ids_in_file (example_object 3) = {} \<and>
   listObjectNames (the (getGroup (one_child_file ''TriggerRecord4294967296'') ''/'')) =
     [''TriggerRecord'' @ ''4294967296''] \<and>
   decimal_value ''4294967296'' = 2 ^ 32 \<and>
   get_all_record_ids example_collaborators (one_child_file ''TriggerRecord4294967296'')
     (example_object 3) = (Inl StoiOutOfRange, example_object 3) \<and>
   get_all_record_ids example_collaborators (one_child_file ''TriggerRecordABC'')
     (example_object 3) = (Inl StoiInvalidArgument, example_object 3) \<and>
   sublist ''TriggerRecord'' ''MyTriggerRecord7'' \<and>
   get_all_record_ids example_collaborators (one_child_file ''MyTriggerRecord7'')
     (example_object 3) = (Inr {(7, 0)}, (example_object 3)\<lparr>m_all_record_ids_in_file := {(7, 0)}\<rparr>)"
proof -
  have n: "name \<in> set (listObjectNames [(name, Group [])])" for name :: string
    by (simp add: listObjectNames_def)
  have d: "decimal_value ''4294967296'' = 2 ^ 32"
    by (simp add: decimal_value_def digit_value_def)
  have dg: "\<forall>c \<in> set ''4294967296''. isdigit c" by (simp add: isdigit_def)
  have sub: "sublist ''TriggerRecord'' ''MyTriggerRecord7''"
    unfolding sublist_def by (rule exI[of _ "''My''"], rule exI[of _ "''7''"]) simp
  have p7: "record_id_of_name ''TriggerRecord'' ''MyTriggerRecord7'' = Some (Inr (7, 0))"
    by (simp add: record_id_of_name_def stoi_def isspace_def isdigit_def decimal_value_def
          digit_value_def Let_def)
  note t1 = get_all_record_ids_uses_stoi[where s = "example_object 3" and f = "one_child_file ''TriggerRecord4294967296''"
      and root = "[(''TriggerRecord4294967296'', Group [])]" and name = "''TriggerRecord4294967296''" and X = example_collaborators
      and pfx = "''TriggerRecord''" and ds = "''4294967296''" and rest = "''''",
      OF example_not_enumerated one_child_root n example_prefix]
  note t2 = get_all_record_ids_uses_stoi[where s = "example_object 3" and f = "one_child_file ''TriggerRecordABC''"
      and root = "[(''TriggerRecordABC'', Group [])]" and name = "''TriggerRecordABC''" and X = example_collaborators
      and pfx = "''TriggerRecord''" and ds = "''''" and rest = "''ABC''",
      OF example_not_enumerated one_child_root n example_prefix]
  note t3 = get_all_record_ids_uses_stoi[where s = "example_object 3" and f = "one_child_file ''MyTriggerRecord7''"
      and root = "[(''MyTriggerRecord7'', Group [])]" and name = "''MyTriggerRecord7''" and X = example_collaborators
      and pfx = "''TriggerRecord''" and ds = "''''" and rest = "''''",
      OF example_not_enumerated one_child_root n example_prefix]
  from t1 d dg have "get_all_record_ids example_collaborators (one_child_file ''TriggerRecord4294967296'')
     (example_object 3) = (Inl StoiOutOfRange, example_object 3)"
    by (simp add: listObjectNames_def)
  moreover from t2 have "get_all_record_ids example_collaborators (one_child_file ''TriggerRecordABC'')
     (example_object 3) = (Inl StoiInvalidArgument, example_object 3)"
    by (simp add: listObjectNames_def isdigit_def isspace_def)
  moreover from t3 p7 have "get_all_record_ids example_collaborators (one_child_file ''MyTriggerRecord7'')
     (example_object 3) = (Inr {(7, 0)}, (example_object 3)\<lparr>m_all_record_ids_in_file := {(7, 0)}\<rparr>)"
    by (simp add: listObjectNames_def)
  ultimately show ?thesis
    using d sub by (simp add: example_not_enumerated one_child_file_def listObjectNames_def)
qed

end
